theory Spec2Isabelle
  imports Complex_Main "HOL-Library.AList" "HOL-Library.Sublist"
begin

section \<open>The thermal notebook (notebooks/thermal/Thermal.ipynb)\<close>

text \<open>
  The notebook is a Python 2 script of eight code cells. It binds a dictionary
  \<open>config\<close>, loads a trace with \<open>trappy.Run\<close>, builds an \<open>Analyzer\<close> over the
  trace and the dictionary, and then hands six statement strings to the Analyzer,
  printing a line after three of them.

  Every statement of the script is a transformer of the notebook's state: its top-level
  names, what it has printed, what its cells displayed, the modules it imported and the
  calls it made into the two libraries. The libraries (\<open>trappy\<close> and
  \<open>bart.common.Analyzer\<close>) are not part of the notebook: they are a parameter, a record
  of functions that either raise or return.
\<close>

subsection \<open>Values\<close>

text \<open>The five trappy event classes the dictionary refers to.\<close>

datatype event_class =
  Thermal | CpuOutPower | CpuInPower | PIDController | ThermalGovernor

text \<open>A value stored in \<open>config\<close>: an event class or an integer.\<close>

datatype cfg_value = Cls event_class | Num int

text \<open>
  The dictionary, in insertion order. \<open>config[k] = v\<close> is \<open>AList.update k v\<close>: it
  replaces the value of a key that is there and appends a new key otherwise.
\<close>

type_synonym config = "(string \<times> cfg_value) list"

text \<open>The \<open>select\<close> argument: the notebook passes a string (\<open>BIG\<close>) or the integer 0.\<close>

datatype select = SelStr string | SelInt int

text \<open>
  Exceptions: a name read before it is bound, or whatever a library raises (the
  notebook never looks at it).
\<close>

datatype exn = NameError string | LibraryError string

subsection \<open>The two libraries\<close>

text \<open>
  \<open>'run\<close> is what \<open>trappy.Run\<close> returns, \<open>'an\<close> an Analyzer object and \<open>'res\<close> what
  \<open>getStatement\<close> returns. The keyword arguments have the defaults of the call sites:
  \<open>reference\<close> is \<open>False\<close> and \<open>select\<close> is \<open>None\<close> where the notebook leaves them out.
  \<open>len\<close> is Python's \<open>len\<close> on a result.
\<close>

record ('run, 'an, 'res) lib =
  trappy_Run :: "string \<Rightarrow> string \<Rightarrow> exn + 'run"
  Analyzer :: "'run \<Rightarrow> config \<Rightarrow> exn + 'an"
  getStatement :: "'an \<Rightarrow> string \<Rightarrow> bool \<Rightarrow> select option \<Rightarrow> exn + 'res"
  assertStatement :: "'an \<Rightarrow> string \<Rightarrow> select option \<Rightarrow> exn + bool"
  len :: "'res \<Rightarrow> exn + nat"

text \<open>A call into one of the libraries, with its arguments.\<close>

datatype ('run, 'an, 'res) call =
  Call_Run string string
| Call_Analyzer 'run config
| Call_getStatement 'an string bool "select option"
| Call_assertStatement 'an string "select option"

text \<open>What a cell displays as its value (\<open>Out[n]\<close>).\<close>

datatype 'res shown = ShownBool bool | ShownRes 'res

subsection \<open>The notebook's state\<close>

text \<open>
  One field for each top-level name the script binds (\<open>None\<close>: not bound yet), the
  lines printed, the values displayed, the modules imported, the library calls made,
  and the exception that stopped the run, if any.
\<close>

record ('run, 'an, 'res) nb_state =
  imported :: "string list"
  config :: "config option"
  TRACE :: "string option"
  run :: "'run option"
  t :: "'an option"
  BIG :: "string option"
  LITTLE :: "string option"
  result :: "'res option"
  stdout :: "string list"
  displayed :: "'res shown list"
  calls :: "('run, 'an, 'res) call list"
  raised :: "exn option"

type_synonym ('run, 'an, 'res) stmt =
  "('run, 'an, 'res) nb_state \<Rightarrow> ('run, 'an, 'res) nb_state"

definition init :: "('run, 'an, 'res) nb_state" where
  "init = \<lparr>imported = [], config = None, TRACE = None, run = None, t = None,
     BIG = None, LITTLE = None, result = None, stdout = [], displayed = [],
     calls = [], raised = None\<rparr>"

definition raise :: "exn \<Rightarrow> ('run, 'an, 'res) stmt" where
  "raise e s = s\<lparr>raised := Some e\<rparr>"

text \<open>Python 2's \<open>print "..."\<close>: one more line on the standard output.\<close>

definition print :: "string \<Rightarrow> ('run, 'an, 'res) stmt" where
  "print msg s = s\<lparr>stdout := stdout s @ [msg]\<rparr>"

text \<open>\<open>import m\<close> and \<open>from m import x\<close>: the module \<open>m\<close> is imported.\<close>

definition import_module :: "string \<Rightarrow> ('run, 'an, 'res) stmt" where
  "import_module m s = s\<lparr>imported := imported s @ [m]\<rparr>"

subsection \<open>Cell 1: the configuration\<close>

text \<open>\<open>config = {}\<close>\<close>

definition config_new :: "('run, 'an, 'res) stmt" where
  "config_new s = s\<lparr>config := Some []\<rparr>"

text \<open>
  The right-hand sides of cell 1: an attribute of the module \<open>trappy\<close> (a
  \<open>NameError\<close> when \<open>trappy\<close> is not imported) or an integer literal.
\<close>

definition trappy_attr ::
  "event_class \<Rightarrow> ('run, 'an, 'res) nb_state \<Rightarrow> exn + cfg_value" where
  "trappy_attr c s =
     (if ''trappy'' \<in> set (imported s) then Inr (Cls c) else Inl (NameError ''trappy''))"

definition literal :: "int \<Rightarrow> ('run, 'an, 'res) nb_state \<Rightarrow> exn + cfg_value" where
  "literal n s = Inr (Num n)"

text \<open>\<open>config[k] = rhs\<close>: the right-hand side is evaluated first.\<close>

definition config_setitem ::
  "string \<Rightarrow> (('run, 'an, 'res) nb_state \<Rightarrow> exn + cfg_value) \<Rightarrow> ('run, 'an, 'res) stmt" where
  "config_setitem k rhs s =
     (case rhs s of
        Inl e \<Rightarrow> raise e s
      | Inr v \<Rightarrow>
          (case config s of
             None \<Rightarrow> raise (NameError ''config'') s
           | Some c \<Rightarrow> s\<lparr>config := Some (AList.update k v c)\<rparr>))"

text \<open>
  Cell 1 with the values of \<open>EXPECTED_TEMP_QRT\<close> and \<open>EXPECTED_STD_PCT\<close> as
  parameters; the notebook's cell has 95 and 5.
\<close>

definition cell1_with :: "int \<Rightarrow> int \<Rightarrow> ('run, 'an, 'res) stmt list" where
  "cell1_with qrt pct =
     [import_module ''trappy'',
      config_new,
      config_setitem ''THERMAL'' (trappy_attr Thermal),
      config_setitem ''OUT'' (trappy_attr CpuOutPower),
      config_setitem ''IN'' (trappy_attr CpuInPower),
      config_setitem ''PID'' (trappy_attr PIDController),
      config_setitem ''GOVERNOR'' (trappy_attr ThermalGovernor),
      config_setitem ''CONTROL_TEMP'' (literal 77000),
      config_setitem ''TEMP_MARGIN'' (literal 2500),
      config_setitem ''SUSTAINABLE_POWER'' (literal 2500),
      config_setitem ''EXPECTED_TEMP_QRT'' (literal qrt),
      config_setitem ''EXPECTED_STD_PCT'' (literal pct)]"

definition cell1 :: "('run, 'an, 'res) stmt list" where
  "cell1 = cell1_with 95 5"

subsection \<open>Cell 2: the run object\<close>

definition TRACE_PATH :: string where
  "TRACE_PATH = ''/Users/kapileshwarsingh/AnalysisRawData/LPC/thermal''"

text \<open>\<open>TRACE = "/Users/kapileshwarsingh/AnalysisRawData/LPC/thermal"\<close>\<close>

definition TRACE_assign :: "('run, 'an, 'res) stmt" where
  "TRACE_assign s = s\<lparr>TRACE := Some TRACE_PATH\<rparr>"

text \<open>\<open>run = trappy.Run(TRACE, "SomeBenchMark")\<close>\<close>

definition run_assign :: "('run, 'an, 'res) lib \<Rightarrow> ('run, 'an, 'res) stmt" where
  "run_assign L s =
     (if ''trappy'' \<notin> set (imported s) then raise (NameError ''trappy'') s
      else case TRACE s of
        None \<Rightarrow> raise (NameError ''TRACE'') s
      | Some p \<Rightarrow>
          (let s' = s\<lparr>calls := calls s @ [Call_Run p ''SomeBenchMark'']\<rparr>
           in case trappy_Run L p ''SomeBenchMark'' of
                Inl e \<Rightarrow> raise e s'
              | Inr r \<Rightarrow> s'\<lparr>run := Some r\<rparr>))"

definition cell2 :: "('run, 'an, 'res) lib \<Rightarrow> ('run, 'an, 'res) stmt list" where
  "cell2 L = [TRACE_assign, run_assign L]"

subsection \<open>Cell 3: the Analyzer\<close>

text \<open>\<open>t = Analyzer(run, config)\<close>, after \<open>from bart.common.Analyzer import Analyzer\<close>.\<close>

definition t_assign :: "('run, 'an, 'res) lib \<Rightarrow> ('run, 'an, 'res) stmt" where
  "t_assign L s =
     (if ''bart.common.Analyzer'' \<notin> set (imported s) then raise (NameError ''Analyzer'') s
      else case run s of
        None \<Rightarrow> raise (NameError ''run'') s
      | Some r \<Rightarrow>
          (case config s of
             None \<Rightarrow> raise (NameError ''config'') s
           | Some c \<Rightarrow>
               (let s' = s\<lparr>calls := calls s @ [Call_Analyzer r c]\<rparr>
                in case Analyzer L r c of
                     Inl e \<Rightarrow> raise e s'
                   | Inr a \<Rightarrow> s'\<lparr>t := Some a\<rparr>)))"

text \<open>\<open>BIG = '000000f0'\<close> and \<open>LITTLE = '0000000f'\<close>\<close>

definition BIG_assign :: "('run, 'an, 'res) stmt" where
  "BIG_assign s = s\<lparr>BIG := Some ''000000f0''\<rparr>"

definition LITTLE_assign :: "('run, 'an, 'res) stmt" where
  "LITTLE_assign s = s\<lparr>LITTLE := Some ''0000000f''\<rparr>"

definition cell3 :: "('run, 'an, 'res) lib \<Rightarrow> ('run, 'an, 'res) stmt list" where
  "cell3 L =
     [import_module ''bart.common.Analyzer'', t_assign L, BIG_assign, LITTLE_assign]"

subsection \<open>Calling the Analyzer\<close>

text \<open>The \<open>select\<close> arguments of the call sites: \<open>select=BIG\<close>, \<open>select=0\<close>, none.\<close>

definition select_BIG ::
  "('run, 'an, 'res) nb_state \<Rightarrow> exn + select option" where
  "select_BIG s =
     (case BIG s of None \<Rightarrow> Inl (NameError ''BIG'') | Some b \<Rightarrow> Inr (Some (SelStr b)))"

definition select_0 :: "('run, 'an, 'res) nb_state \<Rightarrow> exn + select option" where
  "select_0 s = Inr (Some (SelInt 0))"

definition select_default ::
  "('run, 'an, 'res) nb_state \<Rightarrow> exn + select option" where
  "select_default s = Inr None"

text \<open>
  The expression \<open>t.getStatement(stmt, reference=ref, select=sel)\<close>: its value, and
  the state with the call recorded. \<open>t\<close> is looked up first, then the arguments.
  Here the Analyzer is a value and the call a function of it, which is all that what
  is printed and displayed depends on. That a call may also change the object it is
  made on is the subject of the notebook over a store of objects, further down.
\<close>

definition eval_getStatement ::
  "('run, 'an, 'res) lib \<Rightarrow> string \<Rightarrow> bool \<Rightarrow>
   (('run, 'an, 'res) nb_state \<Rightarrow> exn + select option) \<Rightarrow>
   ('run, 'an, 'res) nb_state \<Rightarrow> (exn + 'res) \<times> ('run, 'an, 'res) nb_state" where
  "eval_getStatement L stmt ref sel s =
     (case t s of
        None \<Rightarrow> (Inl (NameError ''t''), s)
      | Some a \<Rightarrow>
          (case sel s of
             Inl e \<Rightarrow> (Inl e, s)
           | Inr sv \<Rightarrow>
               (getStatement L a stmt ref sv,
                s\<lparr>calls := calls s @ [Call_getStatement a stmt ref sv]\<rparr>)))"

text \<open>The expression \<open>t.assertStatement(stmt, select=sel)\<close>.\<close>

definition eval_assertStatement ::
  "('run, 'an, 'res) lib \<Rightarrow> string \<Rightarrow>
   (('run, 'an, 'res) nb_state \<Rightarrow> exn + select option) \<Rightarrow>
   ('run, 'an, 'res) nb_state \<Rightarrow> (exn + bool) \<times> ('run, 'an, 'res) nb_state" where
  "eval_assertStatement L stmt sel s =
     (case t s of
        None \<Rightarrow> (Inl (NameError ''t''), s)
      | Some a \<Rightarrow>
          (case sel s of
             Inl e \<Rightarrow> (Inl e, s)
           | Inr sv \<Rightarrow>
               (assertStatement L a stmt sv,
                s\<lparr>calls := calls s @ [Call_assertStatement a stmt sv]\<rparr>)))"

text \<open>\<open>result = <expression>\<close>\<close>

definition result_assign ::
  "(exn + 'res) \<times> ('run, 'an, 'res) nb_state \<Rightarrow> ('run, 'an, 'res) nb_state" where
  "result_assign vs =
     (case vs of (Inl e, s) \<Rightarrow> raise e s | (Inr r, s) \<Rightarrow> s\<lparr>result := Some r\<rparr>)"

text \<open>A cell whose last line is an expression displays the expression's value.\<close>

definition display ::
  "('v \<Rightarrow> 'res shown) \<Rightarrow> (exn + 'v) \<times> ('run, 'an, 'res) nb_state \<Rightarrow>
   ('run, 'an, 'res) nb_state" where
  "display shw vs =
     (case vs of
        (Inl e, s) \<Rightarrow> raise e s
      | (Inr v, s) \<Rightarrow> s\<lparr>displayed := displayed s @ [shw v]\<rparr>)"

text \<open>
  \<open>if len(result): print fail_msg  else: print pass_msg\<close>: a length other than zero
  is true.
\<close>

definition if_len_result ::
  "('run, 'an, 'res) lib \<Rightarrow> string \<Rightarrow> string \<Rightarrow> ('run, 'an, 'res) stmt" where
  "if_len_result L fail_msg pass_msg s =
     (case result s of
        None \<Rightarrow> raise (NameError ''result'') s
      | Some r \<Rightarrow>
          (case len L r of
             Inl e \<Rightarrow> raise e s
           | Inr n \<Rightarrow> if n \<noteq> 0 then print fail_msg s else print pass_msg s))"

subsection \<open>The statement strings and the messages\<close>

text \<open>
  The first two statements are written over two source lines, with a backslash at the
  end of the first inside the string literal: the string has no line break and keeps
  the second line's indentation.
\<close>

definition STMT_LOAD :: string where
  "STMT_LOAD =
     ''((IN:load0 + IN:load1 + IN:load2 + IN:load3) == 0)                 & (IN:dynamic_power > 0)''"

definition STMT_GOVERNOR :: string where
  "STMT_GOVERNOR =
     ''(GOVERNOR:current_temperature > CONTROL_TEMP) &            (PID:output > SUSTAINABLE_POWER)''"

definition STMT_PERCENTILE :: string where
  "STMT_PERCENTILE = ''numpy.percentile(THERMAL:temp, 95) < (CONTROL_TEMP + TEMP_MARGIN)''"

definition STMT_MEAN :: string where
  "STMT_MEAN = ''numpy.mean(THERMAL:temp) <= CONTROL_TEMP''"

definition STMT_STD :: string where
  "STMT_STD = ''(numpy.std(THERMAL:temp) * 100.0) / numpy.mean(THERMAL:temp)''"

definition FAIL_BIG :: string where
  "FAIL_BIG = ''FAIL: Dynamic Power is NOT Zero when load is Zero for the BIG cluster''"

definition PASS_BIG :: string where
  "PASS_BIG = ''PASS: Dynamic Power is Zero when load is Zero for the BIG cluster''"

definition FAIL_LITTLE :: string where
  "FAIL_LITTLE = ''FAIL: Dynamic Power is NOT Zero when load is Zero for the LITTLE cluster''"

definition PASS_LITTLE :: string where
  "PASS_LITTLE = ''PASS: Dynamic Power is Zero when load is Zero for the LITTLE cluster''"

definition FAIL_GOVERNOR :: string where
  "FAIL_GOVERNOR =
     ''FAIL: The Governor is allocating power > sustainable when T > CONTROL_TEMP''"

definition PASS_GOVERNOR :: string where
  "PASS_GOVERNOR =
     ''PASS: The Governor is allocating power <= sustainable when T > CONTROL_TEMP''"

subsection \<open>Cells 4 to 8: the checks\<close>

text \<open>Cell 4: the check for the BIG cluster, then the one printed for the LITTLE cluster.\<close>

definition big_get :: "('run, 'an, 'res) lib \<Rightarrow> ('run, 'an, 'res) stmt" where
  "big_get L s = result_assign (eval_getStatement L STMT_LOAD True select_BIG s)"

definition big_print :: "('run, 'an, 'res) lib \<Rightarrow> ('run, 'an, 'res) stmt" where
  "big_print L = if_len_result L FAIL_BIG PASS_BIG"

definition little_get :: "('run, 'an, 'res) lib \<Rightarrow> ('run, 'an, 'res) stmt" where
  "little_get L s = result_assign (eval_getStatement L STMT_LOAD True select_BIG s)"

definition little_print :: "('run, 'an, 'res) lib \<Rightarrow> ('run, 'an, 'res) stmt" where
  "little_print L = if_len_result L FAIL_LITTLE PASS_LITTLE"

definition cell4 :: "('run, 'an, 'res) lib \<Rightarrow> ('run, 'an, 'res) stmt list" where
  "cell4 L = [big_get L, big_print L, little_get L, little_print L]"

text \<open>Cell 5: the governor check.\<close>

definition governor_get :: "('run, 'an, 'res) lib \<Rightarrow> ('run, 'an, 'res) stmt" where
  "governor_get L s = result_assign (eval_getStatement L STMT_GOVERNOR True select_0 s)"

definition governor_print :: "('run, 'an, 'res) lib \<Rightarrow> ('run, 'an, 'res) stmt" where
  "governor_print L = if_len_result L FAIL_GOVERNOR PASS_GOVERNOR"

definition cell5 :: "('run, 'an, 'res) lib \<Rightarrow> ('run, 'an, 'res) stmt list" where
  "cell5 L = [governor_get L, governor_print L]"

text \<open>Cells 6 and 7: the two \<open>assertStatement\<close> calls; each cell displays the value.\<close>

definition percentile_assert :: "('run, 'an, 'res) lib \<Rightarrow> ('run, 'an, 'res) stmt" where
  "percentile_assert L s =
     display ShownBool (eval_assertStatement L STMT_PERCENTILE select_default s)"

definition mean_assert :: "('run, 'an, 'res) lib \<Rightarrow> ('run, 'an, 'res) stmt" where
  "mean_assert L s = display ShownBool (eval_assertStatement L STMT_MEAN select_0 s)"

definition cell6 :: "('run, 'an, 'res) lib \<Rightarrow> ('run, 'an, 'res) stmt list" where
  "cell6 L = [percentile_assert L]"

definition cell7 :: "('run, 'an, 'res) lib \<Rightarrow> ('run, 'an, 'res) stmt list" where
  "cell7 L = [mean_assert L]"

text \<open>Cell 8: the standard deviation as a percentage of the mean, displayed only.\<close>

definition std_get :: "('run, 'an, 'res) lib \<Rightarrow> ('run, 'an, 'res) stmt" where
  "std_get L s = display ShownRes (eval_getStatement L STMT_STD False select_0 s)"

definition cell8 :: "('run, 'an, 'res) lib \<Rightarrow> ('run, 'an, 'res) stmt list" where
  "cell8 L = [std_get L]"

subsection \<open>Running the notebook\<close>

text \<open>
  A statement runs only while no exception is pending: the notebook has no
  \<open>try\<close>, so the first exception ends the run and the rest is skipped.
\<close>

definition step :: "('run, 'an, 'res) stmt \<Rightarrow> ('run, 'an, 'res) stmt" where
  "step f s = (case raised s of None \<Rightarrow> f s | Some e \<Rightarrow> s)"

fun run_stmts ::
  "('run, 'an, 'res) stmt list \<Rightarrow> ('run, 'an, 'res) nb_state \<Rightarrow> ('run, 'an, 'res) nb_state" where
  "run_stmts [] s = s"
| "run_stmts (f # fs) s = run_stmts fs (step f s)"

definition checks :: "('run, 'an, 'res) lib \<Rightarrow> ('run, 'an, 'res) stmt list" where
  "checks L = cell4 L @ cell5 L @ cell6 L @ cell7 L @ cell8 L"

definition notebook_with ::
  "int \<Rightarrow> int \<Rightarrow> ('run, 'an, 'res) lib \<Rightarrow> ('run, 'an, 'res) stmt list" where
  "notebook_with qrt pct L = cell1_with qrt pct @ cell2 L @ cell3 L @ checks L"

definition notebook :: "('run, 'an, 'res) lib \<Rightarrow> ('run, 'an, 'res) stmt list" where
  "notebook L = cell1 @ cell2 L @ cell3 L @ checks L"

definition run_all :: "('run, 'an, 'res) lib \<Rightarrow> ('run, 'an, 'res) nb_state" where
  "run_all L = run_stmts (notebook L) init"

subsection \<open>What a run leaves behind\<close>

text \<open>The dictionary cell 1 builds, entry by entry in the order of its assignments.\<close>

definition CONFIG_with :: "int \<Rightarrow> int \<Rightarrow> config" where
  "CONFIG_with qrt pct =
     [(''THERMAL'', Cls Thermal), (''OUT'', Cls CpuOutPower), (''IN'', Cls CpuInPower),
      (''PID'', Cls PIDController), (''GOVERNOR'', Cls ThermalGovernor),
      (''CONTROL_TEMP'', Num 77000), (''TEMP_MARGIN'', Num 2500),
      (''SUSTAINABLE_POWER'', Num 2500), (''EXPECTED_TEMP_QRT'', Num qrt),
      (''EXPECTED_STD_PCT'', Num pct)]"

definition CONFIG :: config where
  "CONFIG = CONFIG_with 95 5"

text \<open>An integer entry of the dictionary.\<close>

definition cfg_num :: "config \<Rightarrow> string \<Rightarrow> int option" where
  "cfg_num c k = (case map_of c k of Some (Num n) \<Rightarrow> Some n | _ \<Rightarrow> None)"

text \<open>The state once cells 1 to 3 have run with the trace \<open>r\<close> and the Analyzer \<open>a\<close>.\<close>

definition setup_state :: "config \<Rightarrow> 'run \<Rightarrow> 'an \<Rightarrow> ('run, 'an, 'res) nb_state" where
  "setup_state c r a =
     \<lparr>imported = [''trappy'', ''bart.common.Analyzer''], config = Some c,
      TRACE = Some TRACE_PATH, run = Some r, t = Some a, BIG = Some ''000000f0'',
      LITTLE = Some ''0000000f'', result = None, stdout = [], displayed = [],
      calls = [Call_Run TRACE_PATH ''SomeBenchMark'', Call_Analyzer r c], raised = None\<rparr>"

text \<open>The line a check prints for a result of length \<open>n\<close>.\<close>

definition line :: "string \<Rightarrow> string \<Rightarrow> nat \<Rightarrow> string" where
  "line fail_msg pass_msg n = (if n \<noteq> 0 then fail_msg else pass_msg)"

text \<open>The six calls of cells 4 to 8 on the Analyzer \<open>a\<close>, in order.\<close>

definition statement_calls :: "'an \<Rightarrow> ('run, 'an, 'res) call list" where
  "statement_calls a =
     [Call_getStatement a STMT_LOAD True (Some (SelStr ''000000f0'')),
      Call_getStatement a STMT_LOAD True (Some (SelStr ''000000f0'')),
      Call_getStatement a STMT_GOVERNOR True (Some (SelInt 0)),
      Call_assertStatement a STMT_PERCENTILE None,
      Call_assertStatement a STMT_MEAN (Some (SelInt 0)),
      Call_getStatement a STMT_STD False (Some (SelInt 0))]"

text \<open>
  The library's answers in a run in which every call returns: the trace, the Analyzer,
  the result of the load statement and its length, the result of the governor statement
  and its length, the two assertions and the value of the last statement.
\<close>

definition answers ::
  "('run, 'an, 'res) lib \<Rightarrow> config \<Rightarrow> 'run \<Rightarrow> 'an \<Rightarrow> 'res \<Rightarrow> nat \<Rightarrow> 'res \<Rightarrow> nat \<Rightarrow>
   bool \<Rightarrow> bool \<Rightarrow> 'res \<Rightarrow> bool" where
  "answers L c r a r1 n1 r3 n3 b1 b2 r4 =
     (trappy_Run L TRACE_PATH ''SomeBenchMark'' = Inr r \<and>
      Analyzer L r c = Inr a \<and>
      getStatement L a STMT_LOAD True (Some (SelStr ''000000f0'')) = Inr r1 \<and>
      len L r1 = Inr n1 \<and>
      getStatement L a STMT_GOVERNOR True (Some (SelInt 0)) = Inr r3 \<and>
      len L r3 = Inr n3 \<and>
      assertStatement L a STMT_PERCENTILE None = Inr b1 \<and>
      assertStatement L a STMT_MEAN (Some (SelInt 0)) = Inr b2 \<and>
      getStatement L a STMT_STD False (Some (SelInt 0)) = Inr r4)"

text \<open>
  The state once the first \<open>k\<close> of the six calls have been made: what \<open>result\<close> is
  bound to, the lines printed, the values displayed and the pending exception.
\<close>

definition state_after ::
  "config \<Rightarrow> 'run \<Rightarrow> 'an \<Rightarrow> nat \<Rightarrow> 'res option \<Rightarrow> string list \<Rightarrow> 'res shown list \<Rightarrow>
   exn option \<Rightarrow> ('run, 'an, 'res) nb_state" where
  "state_after c r a k res ls shs e =
     (setup_state c r a)
       \<lparr>result := res, stdout := ls, displayed := shs,
        calls := [Call_Run TRACE_PATH ''SomeBenchMark'', Call_Analyzer r c]
                 @ take k (statement_calls a),
        raised := e\<rparr>"

text \<open>The state at the end of a run in which every call returns.\<close>

definition final_state ::
  "config \<Rightarrow> 'run \<Rightarrow> 'an \<Rightarrow> nat \<Rightarrow> 'res \<Rightarrow> nat \<Rightarrow> bool \<Rightarrow> bool \<Rightarrow> 'res \<Rightarrow>
   ('run, 'an, 'res) nb_state" where
  "final_state c r a n1 r3 n3 b1 b2 r4 =
     state_after c r a 6 (Some r3)
       [line FAIL_BIG PASS_BIG n1, line FAIL_LITTLE PASS_LITTLE n1,
        line FAIL_GOVERNOR PASS_GOVERNOR n3]
       [ShownBool b1, ShownBool b2, ShownRes r4] None"

text \<open>What a reader of the notebook sees of a state.\<close>

definition outputs ::
  "('run, 'an, 'res) nb_state \<Rightarrow> string list \<times> 'res shown list \<times> exn option" where
  "outputs s = (stdout s, displayed s, raised s)"

text \<open>Sorting the calls.\<close>

fun is_Run :: "('run, 'an, 'res) call \<Rightarrow> bool" where
  "is_Run (Call_Run p n) = True"
| "is_Run c = False"

fun is_Analyzer :: "('run, 'an, 'res) call \<Rightarrow> bool" where
  "is_Analyzer (Call_Analyzer r c) = True"
| "is_Analyzer c = False"

text \<open>The statement-evaluation entry points: \<open>getStatement\<close> and \<open>assertStatement\<close>.\<close>

fun is_entry_point :: "('run, 'an, 'res) call \<Rightarrow> bool" where
  "is_entry_point (Call_getStatement a stmt ref sel) = True"
| "is_entry_point (Call_assertStatement a stmt sel) = True"
| "is_entry_point c = False"

text \<open>
  The calls that are assertions: every \<open>assertStatement\<close>, and every \<open>getStatement\<close>
  with \<open>reference=True\<close>, whose result the notebook turns into a PASS or FAIL line.
  The last \<open>getStatement\<close> (default \<open>reference\<close>) only shows a number.
\<close>

fun is_assertion :: "('run, 'an, 'res) call \<Rightarrow> bool" where
  "is_assertion (Call_getStatement a stmt ref sel) = ref"
| "is_assertion (Call_assertStatement a stmt sel) = True"
| "is_assertion c = False"

text \<open>The Analyzer a call is made on, and the statement string it passes.\<close>

fun receiver :: "('run, 'an, 'res) call \<Rightarrow> 'an option" where
  "receiver (Call_getStatement a stmt ref sel) = Some a"
| "receiver (Call_assertStatement a stmt sel) = Some a"
| "receiver c = None"

fun statement_of :: "('run, 'an, 'res) call \<Rightarrow> string option" where
  "statement_of (Call_getStatement a stmt ref sel) = Some stmt"
| "statement_of (Call_assertStatement a stmt sel) = Some stmt"
| "statement_of c = None"

fun select_of :: "('run, 'an, 'res) call \<Rightarrow> select option" where
  "select_of (Call_getStatement a stmt ref sel) = sel"
| "select_of (Call_assertStatement a stmt sel) = sel"
| "select_of c = None"


subsection \<open>What the statements mean to the evaluator\<close>

text \<open>
  Modelled from the spec: the expression evaluator behind \<open>getStatement\<close> and
  \<open>assertStatement\<close> (\<open>bart.common.Analyzer\<close> over trappy's trace events) is not among
  the sources. The spec calls it a generic expression evaluator that resolves short
  names through the configuration and evaluates boolean and numeric assertions such as
  "dynamic power is zero when load is zero" and "95th percentile of temperature stays
  below a threshold". What follows states that reading for the notebook's statements,
  as conditions a library may or may not meet; the theorems that need one assume it.

  A sample of the \<open>IN\<close> event (\<open>CpuInPower\<close>) has the four loads and the dynamic power;
  a sample of the governor statement has the temperature the governor saw and the power
  the PID controller granted at that time.
\<close>

record in_row =
  load0 :: int
  load1 :: int
  load2 :: int
  load3 :: int
  dynamic_power :: int

record gov_row =
  current_temperature :: int
  pid_output :: int

text \<open>\<open>((IN:load0 + IN:load1 + IN:load2 + IN:load3) == 0) & (IN:dynamic_power > 0)\<close>\<close>

definition load_statement_holds :: "config \<Rightarrow> in_row \<Rightarrow> bool" where
  "load_statement_holds c x =
     (load0 x + load1 x + load2 x + load3 x = 0 \<and> dynamic_power x > 0)"

text \<open>
  \<open>(GOVERNOR:current_temperature > CONTROL_TEMP) & (PID:output > SUSTAINABLE_POWER)\<close>,
  the two upper-case names looked up in the configuration.
\<close>

definition governor_statement_holds :: "config \<Rightarrow> gov_row \<Rightarrow> bool" where
  "governor_statement_holds c x =
     (case (cfg_num c ''CONTROL_TEMP'', cfg_num c ''SUSTAINABLE_POWER'') of
        (Some ct, Some sp) \<Rightarrow> current_temperature x > ct \<and> pid_output x > sp
      | _ \<Rightarrow> False)"

text \<open>
  With \<open>reference=True\<close> the result of \<open>getStatement\<close> holds the selected samples at
  which the statement is true: its length is their number. \<open>rows r sel\<close> are the
  samples of the trace \<open>r\<close> that \<open>select=sel\<close> selects.
\<close>

definition reference_selects ::
  "('run, 'an, 'res) lib \<Rightarrow> ('run \<Rightarrow> select \<Rightarrow> 'row list) \<Rightarrow> string \<Rightarrow>
   (config \<Rightarrow> 'row \<Rightarrow> bool) \<Rightarrow> bool" where
  "reference_selects L rows stmt holds \<longleftrightarrow>
     (\<forall>r c a sel res n.
        Analyzer L r c = Inr a \<and> getStatement L a stmt True (Some sel) = Inr res \<and>
        len L res = Inr n \<longrightarrow>
        n = length (filter (holds c) (rows r sel)))"

text \<open>
  \<open>numpy.percentile(THERMAL:temp, 95) < (CONTROL_TEMP + TEMP_MARGIN)\<close>: \<open>temp r\<close> is the
  temperature series of the trace and \<open>pctl\<close> is \<open>numpy.percentile\<close>.
\<close>

definition percentile_statement ::
  "('run, 'an, 'res) lib \<Rightarrow> ('run \<Rightarrow> int list) \<Rightarrow> (int list \<Rightarrow> nat \<Rightarrow> real) \<Rightarrow> bool" where
  "percentile_statement L temp pctl \<longleftrightarrow>
     (\<forall>r c a b.
        Analyzer L r c = Inr a \<and> assertStatement L a STMT_PERCENTILE None = Inr b \<longrightarrow>
        (\<exists>ct m. cfg_num c ''CONTROL_TEMP'' = Some ct \<and> cfg_num c ''TEMP_MARGIN'' = Some m \<and>
           b = (pctl (temp r) 95 < real_of_int (ct + m))))"

text \<open>
  The evaluator reads the configuration only to resolve names that occur in the
  statement. Two dictionaries have the same shape when they have the same keys in the
  same order and differ at most in the integers; building an Analyzer raises for both
  or for neither. Two Analyzers over the same trace whose dictionaries agree on every
  key that is a substring of the statement evaluate the statement alike.
\<close>

definition same_shape :: "config \<Rightarrow> config \<Rightarrow> bool" where
  "same_shape c c' =
     list_all2 (\<lambda>x y. fst x = fst y \<and>
        (case (snd x, snd y) of (Num n, Num n') \<Rightarrow> True | (v, v') \<Rightarrow> v = v')) c c'"

definition same_outcome :: "exn + 'a \<Rightarrow> exn + 'b \<Rightarrow> bool" where
  "same_outcome x y =
     (case (x, y) of (Inl e, Inl e') \<Rightarrow> e = e' | (Inr v, Inr v') \<Rightarrow> True | _ \<Rightarrow> False)"

definition reads_named_entries :: "('run, 'an, 'res) lib \<Rightarrow> bool" where
  "reads_named_entries L \<longleftrightarrow>
     (\<forall>r c c'. same_shape c c' \<longrightarrow> same_outcome (Analyzer L r c) (Analyzer L r c')) \<and>
     (\<forall>r c c' a a' stmt.
        Analyzer L r c = Inr a \<and> Analyzer L r c' = Inr a' \<and>
        (\<forall>k. sublist k stmt \<longrightarrow> map_of c k = map_of c' k) \<longrightarrow>
        (\<forall>ref sel. getStatement L a stmt ref sel = getStatement L a' stmt ref sel) \<and>
        (\<forall>sel. assertStatement L a stmt sel = assertStatement L a' stmt sel))"

subsection \<open>A library to run the notebook on\<close>

text \<open>
  Modelled from the spec: a small stand-in for the two libraries, used to run the
  notebook on concrete traces. A trace has the \<open>IN\<close> samples and the governor samples,
  each with the value \<open>select\<close> picks them by, and the temperature series. The stand-in
  evaluates the notebook's five statements as read above and raises on anything else.
\<close>

record model_trace =
  IN_samples :: "(select \<times> in_row) list"
  GOVERNOR_samples :: "(select \<times> gov_row) list"
  THERMAL_temp :: "int list"

datatype model_result = Samples_IN "in_row list" | Samples_GOVERNOR "gov_row list" | Value real

definition in_rows :: "model_trace \<Rightarrow> select \<Rightarrow> in_row list" where
  "in_rows r sel = map snd (filter (\<lambda>x. fst x = sel) (IN_samples r))"

definition gov_rows :: "model_trace \<Rightarrow> select \<Rightarrow> gov_row list" where
  "gov_rows r sel = map snd (filter (\<lambda>x. fst x = sel) (GOVERNOR_samples r))"

text \<open>
  The percentile with linear interpolation between the two nearest ranks, the mean, and
  the standard deviation of a series that is not empty.
\<close>

definition percentile :: "int list \<Rightarrow> nat \<Rightarrow> real" where
  "percentile xs q =
     (let ys = sort xs;
          pos = q * (length ys - 1);
          lo = pos div 100;
          hi = min (lo + 1) (length ys - 1)
      in real_of_int (ys ! lo)
         + real_of_int (ys ! hi - ys ! lo) * (real (pos mod 100) / 100))"

definition mean :: "int list \<Rightarrow> real" where
  "mean xs = real_of_int (sum_list xs) / real (length xs)"

definition std :: "int list \<Rightarrow> real" where
  "std xs = sqrt (sum_list (map (\<lambda>x. (real_of_int x - mean xs)\<^sup>2) xs) / real (length xs))"

definition model_getStatement ::
  "model_trace \<times> config \<Rightarrow> string \<Rightarrow> bool \<Rightarrow> select option \<Rightarrow> exn + model_result" where
  "model_getStatement a stmt ref sel =
     (case a of (r, c) \<Rightarrow>
        if stmt = STMT_LOAD \<and> ref then
          (case sel of
             Some sv \<Rightarrow> Inr (Samples_IN (filter (load_statement_holds c) (in_rows r sv)))
           | None \<Rightarrow> Inl (LibraryError ''select''))
        else if stmt = STMT_GOVERNOR \<and> ref then
          (case (sel, cfg_num c ''CONTROL_TEMP'', cfg_num c ''SUSTAINABLE_POWER'') of
             (Some sv, Some ct, Some sp) \<Rightarrow>
               Inr (Samples_GOVERNOR (filter (governor_statement_holds c) (gov_rows r sv)))
           | _ \<Rightarrow> Inl (LibraryError ''name''))
        else if stmt = STMT_STD \<and> \<not> ref \<and> THERMAL_temp r \<noteq> [] then
          Inr (Value (std (THERMAL_temp r) * 100 / mean (THERMAL_temp r)))
        else Inl (LibraryError ''statement''))"

definition model_assertStatement ::
  "model_trace \<times> config \<Rightarrow> string \<Rightarrow> select option \<Rightarrow> exn + bool" where
  "model_assertStatement a stmt sel =
     (case a of (r, c) \<Rightarrow>
        if stmt = STMT_PERCENTILE \<and> THERMAL_temp r \<noteq> [] then
          (case (cfg_num c ''CONTROL_TEMP'', cfg_num c ''TEMP_MARGIN'') of
             (Some ct, Some m) \<Rightarrow>
               Inr (percentile (THERMAL_temp r) 95 < real_of_int (ct + m))
           | _ \<Rightarrow> Inl (LibraryError ''name''))
        else if stmt = STMT_MEAN \<and> THERMAL_temp r \<noteq> [] then
          (case cfg_num c ''CONTROL_TEMP'' of
             Some ct \<Rightarrow> Inr (mean (THERMAL_temp r) \<le> real_of_int ct)
           | None \<Rightarrow> Inl (LibraryError ''name''))
        else Inl (LibraryError ''statement''))"

definition model_len :: "model_result \<Rightarrow> exn + nat" where
  "model_len res =
     (case res of
        Samples_IN xs \<Rightarrow> Inr (length xs)
      | Samples_GOVERNOR xs \<Rightarrow> Inr (length xs)
      | Value v \<Rightarrow> Inl (LibraryError ''len''))"

text \<open>The stand-in library over a file system that holds the trace \<open>tr\<close>.\<close>

definition model_lib ::
  "model_trace \<Rightarrow> (model_trace, model_trace \<times> config, model_result) lib" where
  "model_lib tr =
     \<lparr>trappy_Run = (\<lambda>path name. Inr tr),
      Analyzer = (\<lambda>r c. Inr (r, c)),
      getStatement = model_getStatement,
      assertStatement = model_assertStatement,
      len = model_len\<rparr>"

text \<open>
  Two traces: in \<open>quiet_trace\<close> no sample breaks a check, and one governor sample sits
  exactly at the sustainable power above the control temperature; in \<open>hot_trace\<close> an
  idle BIG sample burns dynamic power and the governor grants too much.
\<close>

definition quiet_trace :: model_trace where
  "quiet_trace =
     \<lparr>IN_samples =
        [(SelStr ''000000f0'',
            \<lparr>load0 = 0, load1 = 0, load2 = 0, load3 = 0, dynamic_power = 0\<rparr>),
         (SelStr ''000000f0'',
            \<lparr>load0 = 10, load1 = 0, load2 = 3, load3 = 0, dynamic_power = 120\<rparr>),
         (SelStr ''0000000f'',
            \<lparr>load0 = 0, load1 = 0, load2 = 0, load3 = 0, dynamic_power = 7\<rparr>)],
      GOVERNOR_samples =
        [(SelInt 0, \<lparr>current_temperature = 78000, pid_output = 2500\<rparr>),
         (SelInt 0, \<lparr>current_temperature = 70000, pid_output = 4000\<rparr>)],
      THERMAL_temp = [70000, 78000]\<rparr>"

definition hot_trace :: model_trace where
  "hot_trace =
     \<lparr>IN_samples =
        [(SelStr ''000000f0'',
            \<lparr>load0 = 0, load1 = 0, load2 = 0, load3 = 0, dynamic_power = 35\<rparr>)],
      GOVERNOR_samples =
        [(SelInt 0, \<lparr>current_temperature = 81000, pid_output = 2501\<rparr>)],
      THERMAL_temp = [81000]\<rparr>"


text \<open>A trace with no samples at all: the percentile of an empty series raises.\<close>

definition silent_trace :: model_trace where
  "silent_trace = \<lparr>IN_samples = [], GOVERNOR_samples = [], THERMAL_temp = []\<rparr>"

subsection \<open>The notebook over a store of objects\<close>

text \<open>
  In Python \<open>config\<close>, \<open>run\<close> and \<open>t\<close> are bound to objects: a dictionary, a trace and
  an Analyzer. A name is rebound by an assignment; an object is changed in place, by
  \<open>config[k] = v\<close> or by whatever a library call does to the objects it can reach. To
  tell the two apart, the notebook is embedded a second time, statement by statement as
  before, over a store that holds the objects: a name is bound to a reference (the
  position of the object in the store), and every library call takes the store and
  returns it, changed or not.
\<close>

type_synonym ref = nat


















































section \<open>Running the cells\<close>

lemma run_stmts_append: "run_stmts (fs @ gs) s = run_stmts gs (run_stmts fs s)"
  by (induction fs arbitrary: s) simp_all

lemma raised_stays: "raised s = Some e \<Longrightarrow> run_stmts fs s = s"
  by (induction fs arbitrary: s) (simp_all add: step_def)

lemma notebook_eq: "notebook L = notebook_with 95 5 L"
  by (simp add: notebook_def notebook_with_def cell1_def)

lemma run_notebook_with:
  "run_stmts (notebook_with q p L) s =
     run_stmts (checks L) (run_stmts (cell1_with q p @ cell2 L @ cell3 L) s)"
  by (simp add: notebook_with_def run_stmts_append)

lemma if_len_result_line:
  "if_len_result L fail_msg pass_msg s =
     (case result s of
        None \<Rightarrow> raise (NameError ''result'') s
      | Some r \<Rightarrow>
          (case len L r of
             Inl e \<Rightarrow> raise e s
           | Inr n \<Rightarrow> print (line fail_msg pass_msg n) s))"
  by (simp add: if_len_result_def line_def split: option.splits sum.splits)

lemmas stmt_defs = big_get_def big_print_def little_get_def little_print_def
  governor_get_def governor_print_def percentile_assert_def mean_assert_def std_get_def
  eval_getStatement_def eval_assertStatement_def result_assign_def display_def
  if_len_result_line select_BIG_def select_0_def select_default_def raise_def print_def

lemmas setup_defs = cell2_def cell3_def init_def step_def TRACE_assign_def run_assign_def
  import_module_def t_assign_def BIG_assign_def LITTLE_assign_def raise_def Let_def

lemmas checks_defs = checks_def cell4_def cell5_def cell6_def cell7_def cell8_def
  step_def stmt_defs setup_state_def state_after_def statement_calls_def

subsection \<open>Cells 1 to 3\<close>

lemma cell1_run:
  "run_stmts (cell1_with q p) init =
     (init :: ('run, 'an, 'res) nb_state)
       \<lparr>imported := [''trappy''], config := Some (CONFIG_with q p)\<rparr>"
  by (simp add: cell1_with_def init_def step_def import_module_def config_new_def
      config_setitem_def trappy_attr_def literal_def CONFIG_with_def)

lemma setup_run:
  assumes "trappy_Run L TRACE_PATH ''SomeBenchMark'' = Inr r"
    and "Analyzer L r (CONFIG_with q p) = Inr a"
  shows "run_stmts (cell1_with q p @ cell2 L @ cell3 L) init =
           setup_state (CONFIG_with q p) r a"
  using assms unfolding run_stmts_append cell1_run
  by (simp add: setup_defs setup_state_def)

lemma setup_fails_Run:
  assumes "trappy_Run L TRACE_PATH ''SomeBenchMark'' = Inl e"
  shows "run_stmts (notebook_with q p L) init =
           (init :: ('run, 'an, 'res) nb_state)
             \<lparr>imported := [''trappy''], config := Some (CONFIG_with q p),
              TRACE := Some TRACE_PATH,
              calls := [Call_Run TRACE_PATH ''SomeBenchMark''], raised := Some e\<rparr>"
proof -
  have "run_stmts (cell1_with q p @ cell2 L) init =
          (init :: ('run, 'an, 'res) nb_state)
             \<lparr>imported := [''trappy''], config := Some (CONFIG_with q p),
              TRACE := Some TRACE_PATH,
              calls := [Call_Run TRACE_PATH ''SomeBenchMark''], raised := Some e\<rparr>"
    using assms unfolding run_stmts_append cell1_run by (simp add: setup_defs)
  then show ?thesis
    by (simp add: notebook_with_def run_stmts_append raised_stays)
qed

lemma setup_fails_Analyzer:
  assumes "trappy_Run L TRACE_PATH ''SomeBenchMark'' = Inr r"
    and "Analyzer L r (CONFIG_with q p) = Inl e"
  shows "run_stmts (notebook_with q p L) init =
           (init :: ('run, 'an, 'res) nb_state)
             \<lparr>imported := [''trappy'', ''bart.common.Analyzer''],
              config := Some (CONFIG_with q p), TRACE := Some TRACE_PATH, run := Some r,
              calls := [Call_Run TRACE_PATH ''SomeBenchMark'',
                        Call_Analyzer r (CONFIG_with q p)],
              raised := Some e\<rparr>"
    (is "_ = ?S")
proof -
  let ?pre = "cell1_with q p @ cell2 L @ [import_module ''bart.common.Analyzer'', t_assign L]"
  have pre: "run_stmts ?pre init = ?S"
    using assms unfolding run_stmts_append cell1_run by (simp add: setup_defs)
  have "run_stmts (notebook_with q p L) init =
          run_stmts ([BIG_assign, LITTLE_assign] @ checks L) (run_stmts ?pre init)"
    by (simp add: notebook_with_def cell3_def run_stmts_append)
  also have "\<dots> = run_stmts ([BIG_assign, LITTLE_assign] @ checks L) ?S"
    by (simp only: pre)
  also have "\<dots> = ?S"
    by (rule raised_stays [where e = e]) simp
  finally show ?thesis .
qed

subsection \<open>Cells 4 to 8, from the state cells 1 to 3 leave\<close>

lemma checks_run:
  assumes "getStatement L a STMT_LOAD True (Some (SelStr ''000000f0'')) = Inr r1"
    and "len L r1 = Inr n1"
    and "getStatement L a STMT_GOVERNOR True (Some (SelInt 0)) = Inr r3"
    and "len L r3 = Inr n3"
    and "assertStatement L a STMT_PERCENTILE None = Inr b1"
    and "assertStatement L a STMT_MEAN (Some (SelInt 0)) = Inr b2"
    and "getStatement L a STMT_STD False (Some (SelInt 0)) = Inr r4"
  shows "run_stmts (checks L) (setup_state c r a) = final_state c r a n1 r3 n3 b1 b2 r4"
  using assms by (simp add: checks_defs final_state_def)

lemma fails_big_get:
  assumes "getStatement L a STMT_LOAD True (Some (SelStr ''000000f0'')) = Inl e"
  shows "run_stmts (checks L) (setup_state c r a) = state_after c r a 1 None [] [] (Some e)"
  using assms by (simp add: checks_defs)

lemma fails_big_len:
  assumes "getStatement L a STMT_LOAD True (Some (SelStr ''000000f0'')) = Inr r1"
    and "len L r1 = Inl e"
  shows "run_stmts (checks L) (setup_state c r a) =
           state_after c r a 1 (Some r1) [] [] (Some e)"
  using assms by (simp add: checks_defs)

lemma fails_governor_get:
  assumes "getStatement L a STMT_LOAD True (Some (SelStr ''000000f0'')) = Inr r1"
    and "len L r1 = Inr n1"
    and "getStatement L a STMT_GOVERNOR True (Some (SelInt 0)) = Inl e"
  shows "run_stmts (checks L) (setup_state c r a) =
           state_after c r a 3 (Some r1)
             [line FAIL_BIG PASS_BIG n1, line FAIL_LITTLE PASS_LITTLE n1] [] (Some e)"
  using assms by (simp add: checks_defs)

lemma fails_governor_len:
  assumes "getStatement L a STMT_LOAD True (Some (SelStr ''000000f0'')) = Inr r1"
    and "len L r1 = Inr n1"
    and "getStatement L a STMT_GOVERNOR True (Some (SelInt 0)) = Inr r3"
    and "len L r3 = Inl e"
  shows "run_stmts (checks L) (setup_state c r a) =
           state_after c r a 3 (Some r3)
             [line FAIL_BIG PASS_BIG n1, line FAIL_LITTLE PASS_LITTLE n1] [] (Some e)"
  using assms by (simp add: checks_defs)

lemma fails_percentile:
  assumes "getStatement L a STMT_LOAD True (Some (SelStr ''000000f0'')) = Inr r1"
    and "len L r1 = Inr n1"
    and "getStatement L a STMT_GOVERNOR True (Some (SelInt 0)) = Inr r3"
    and "len L r3 = Inr n3"
    and "assertStatement L a STMT_PERCENTILE None = Inl e"
  shows "run_stmts (checks L) (setup_state c r a) =
           state_after c r a 4 (Some r3)
             [line FAIL_BIG PASS_BIG n1, line FAIL_LITTLE PASS_LITTLE n1,
              line FAIL_GOVERNOR PASS_GOVERNOR n3] [] (Some e)"
  using assms by (simp add: checks_defs)

lemma fails_mean:
  assumes "getStatement L a STMT_LOAD True (Some (SelStr ''000000f0'')) = Inr r1"
    and "len L r1 = Inr n1"
    and "getStatement L a STMT_GOVERNOR True (Some (SelInt 0)) = Inr r3"
    and "len L r3 = Inr n3"
    and "assertStatement L a STMT_PERCENTILE None = Inr b1"
    and "assertStatement L a STMT_MEAN (Some (SelInt 0)) = Inl e"
  shows "run_stmts (checks L) (setup_state c r a) =
           state_after c r a 5 (Some r3)
             [line FAIL_BIG PASS_BIG n1, line FAIL_LITTLE PASS_LITTLE n1,
              line FAIL_GOVERNOR PASS_GOVERNOR n3] [ShownBool b1] (Some e)"
  using assms by (simp add: checks_defs)

lemma fails_std:
  assumes "getStatement L a STMT_LOAD True (Some (SelStr ''000000f0'')) = Inr r1"
    and "len L r1 = Inr n1"
    and "getStatement L a STMT_GOVERNOR True (Some (SelInt 0)) = Inr r3"
    and "len L r3 = Inr n3"
    and "assertStatement L a STMT_PERCENTILE None = Inr b1"
    and "assertStatement L a STMT_MEAN (Some (SelInt 0)) = Inr b2"
    and "getStatement L a STMT_STD False (Some (SelInt 0)) = Inl e"
  shows "run_stmts (checks L) (setup_state c r a) =
           state_after c r a 6 (Some r3)
             [line FAIL_BIG PASS_BIG n1, line FAIL_LITTLE PASS_LITTLE n1,
              line FAIL_GOVERNOR PASS_GOVERNOR n3] [ShownBool b1, ShownBool b2] (Some e)"
  using assms by (simp add: checks_defs)


lemma state_after_fields [simp]:
  "raised (state_after c r a k res ls shs e) = e"
  "stdout (state_after c r a k res ls shs e) = ls"
  "displayed (state_after c r a k res ls shs e) = shs"
  "result (state_after c r a k res ls shs e) = res"
  "config (state_after c r a k res ls shs e) = Some c"
  "run (state_after c r a k res ls shs e) = Some r"
  "t (state_after c r a k res ls shs e) = Some a"
  "imported (state_after c r a k res ls shs e) = [''trappy'', ''bart.common.Analyzer'']"
  "calls (state_after c r a k res ls shs e) =
     [Call_Run TRACE_PATH ''SomeBenchMark'', Call_Analyzer r c] @ take k (statement_calls a)"
  by (simp_all add: state_after_def setup_state_def)

text \<open>Whatever the library answers, cells 4 to 8 end in one of the states above.\<close>

lemma checks_cases:
  "\<exists>k res ls shs e.
     run_stmts (checks L) (setup_state c r a) = state_after c r a k res ls shs e"
proof (cases "getStatement L a STMT_LOAD True (Some (SelStr ''000000f0''))")
  case (Inl e)
  then show ?thesis by (intro exI, rule fails_big_get)
next
  case g1: (Inr r1)
  show ?thesis
  proof (cases "len L r1")
    case (Inl e)
    then show ?thesis by (intro exI, rule fails_big_len [OF g1])
  next
    case l1: (Inr n1)
    show ?thesis
    proof (cases "getStatement L a STMT_GOVERNOR True (Some (SelInt 0))")
      case (Inl e)
      then show ?thesis by (intro exI, rule fails_governor_get [OF g1 l1])
    next
      case g3: (Inr r3)
      show ?thesis
      proof (cases "len L r3")
        case (Inl e)
        then show ?thesis by (intro exI, rule fails_governor_len [OF g1 l1 g3])
      next
        case l3: (Inr n3)
        show ?thesis
        proof (cases "assertStatement L a STMT_PERCENTILE None")
          case (Inl e)
          then show ?thesis by (intro exI, rule fails_percentile [OF g1 l1 g3 l3])
        next
          case a1: (Inr b1)
          show ?thesis
          proof (cases "assertStatement L a STMT_MEAN (Some (SelInt 0))")
            case (Inl e)
            then show ?thesis by (intro exI, rule fails_mean [OF g1 l1 g3 l3 a1])
          next
            case a2: (Inr b2)
            show ?thesis
            proof (cases "getStatement L a STMT_STD False (Some (SelInt 0))")
              case (Inl e)
              then show ?thesis by (intro exI, rule fails_std [OF g1 l1 g3 l3 a1 a2])
            next
              case (Inr r4)
              then show ?thesis
                by (intro exI, rule checks_run [OF g1 l1 g3 l3 a1 a2, unfolded final_state_def])
            qed
          qed
        qed
      qed
    qed
  qed
qed

text \<open>A run of cells 4 to 8 that ends without an exception got an answer to every call.\<close>

lemma checks_complete:
  assumes ok: "raised (run_stmts (checks L) (setup_state c r a)) = None"
  shows "\<exists>r1 n1 r3 n3 b1 b2 r4.
      getStatement L a STMT_LOAD True (Some (SelStr ''000000f0'')) = Inr r1 \<and>
      len L r1 = Inr n1 \<and>
      getStatement L a STMT_GOVERNOR True (Some (SelInt 0)) = Inr r3 \<and>
      len L r3 = Inr n3 \<and>
      assertStatement L a STMT_PERCENTILE None = Inr b1 \<and>
      assertStatement L a STMT_MEAN (Some (SelInt 0)) = Inr b2 \<and>
      getStatement L a STMT_STD False (Some (SelInt 0)) = Inr r4"
proof -
  obtain r1 where g1: "getStatement L a STMT_LOAD True (Some (SelStr ''000000f0'')) = Inr r1"
    using ok fails_big_get [where c = c and r = r and L = L and a = a]
    by (cases "getStatement L a STMT_LOAD True (Some (SelStr ''000000f0''))") auto
  obtain n1 where l1: "len L r1 = Inr n1"
    using ok fails_big_len [OF g1, where c = c and r = r] by (cases "len L r1") auto
  obtain r3 where g3: "getStatement L a STMT_GOVERNOR True (Some (SelInt 0)) = Inr r3"
    using ok fails_governor_get [OF g1 l1, where c = c and r = r]
    by (cases "getStatement L a STMT_GOVERNOR True (Some (SelInt 0))") auto
  obtain n3 where l3: "len L r3 = Inr n3"
    using ok fails_governor_len [OF g1 l1 g3, where c = c and r = r]
    by (cases "len L r3") auto
  obtain b1 where a1: "assertStatement L a STMT_PERCENTILE None = Inr b1"
    using ok fails_percentile [OF g1 l1 g3 l3, where c = c and r = r]
    by (cases "assertStatement L a STMT_PERCENTILE None") auto
  obtain b2 where a2: "assertStatement L a STMT_MEAN (Some (SelInt 0)) = Inr b2"
    using ok fails_mean [OF g1 l1 g3 l3 a1, where c = c and r = r]
    by (cases "assertStatement L a STMT_MEAN (Some (SelInt 0))") auto
  obtain r4 where g4: "getStatement L a STMT_STD False (Some (SelInt 0)) = Inr r4"
    using ok fails_std [OF g1 l1 g3 l3 a1 a2, where c = c and r = r]
    by (cases "getStatement L a STMT_STD False (Some (SelInt 0))") auto
  from g1 l1 g3 l3 a1 a2 g4 show ?thesis by blast
qed

text \<open>Once the first check has printed, the first two lines are fixed.\<close>

lemma checks_stdout_two:
  assumes g1: "getStatement L a STMT_LOAD True (Some (SelStr ''000000f0'')) = Inr r1"
    and l1: "len L r1 = Inr n1"
  shows "(\<exists>rest. stdout (run_stmts (checks L) (setup_state c r a)) =
            line FAIL_BIG PASS_BIG n1 # line FAIL_LITTLE PASS_LITTLE n1 # rest) \<and>
         take 4 (calls (run_stmts (checks L) (setup_state c r a))) =
           [Call_Run TRACE_PATH ''SomeBenchMark'', Call_Analyzer r c,
            Call_getStatement a STMT_LOAD True (Some (SelStr ''000000f0'')),
            Call_getStatement a STMT_LOAD True (Some (SelStr ''000000f0''))]"
proof (cases "getStatement L a STMT_GOVERNOR True (Some (SelInt 0))")
  case (Inl e)
  then show ?thesis using fails_governor_get [OF g1 l1, where c = c and r = r] by (simp add: statement_calls_def)
next
  case g3: (Inr r3)
  show ?thesis
  proof (cases "len L r3")
    case (Inl e)
    then show ?thesis using fails_governor_len [OF g1 l1 g3, where c = c and r = r] by (simp add: statement_calls_def)
  next
    case l3: (Inr n3)
    show ?thesis
    proof (cases "assertStatement L a STMT_PERCENTILE None")
      case (Inl e)
      then show ?thesis using fails_percentile [OF g1 l1 g3 l3, where c = c and r = r] by (simp add: statement_calls_def)
    next
      case a1: (Inr b1)
      show ?thesis
      proof (cases "assertStatement L a STMT_MEAN (Some (SelInt 0))")
        case (Inl e)
        then show ?thesis using fails_mean [OF g1 l1 g3 l3 a1, where c = c and r = r] by (simp add: statement_calls_def)
      next
        case a2: (Inr b2)
        show ?thesis
        proof (cases "getStatement L a STMT_STD False (Some (SelInt 0))")
          case (Inl e)
          then show ?thesis
            using fails_std [OF g1 l1 g3 l3 a1 a2, where c = c and r = r] by (simp add: statement_calls_def)
        next
          case (Inr r4)
          then show ?thesis
            using checks_run [OF g1 l1 g3 l3 a1 a2, where c = c and r = r]
            by (simp add: final_state_def statement_calls_def)
        qed
      qed
    qed
  qed
qed

text \<open>Once the governor check has printed, nothing more is printed.\<close>

lemma checks_stdout_three:
  assumes g1: "getStatement L a STMT_LOAD True (Some (SelStr ''000000f0'')) = Inr r1"
    and l1: "len L r1 = Inr n1"
    and g3: "getStatement L a STMT_GOVERNOR True (Some (SelInt 0)) = Inr r3"
    and l3: "len L r3 = Inr n3"
  shows "stdout (run_stmts (checks L) (setup_state c r a)) =
           [line FAIL_BIG PASS_BIG n1, line FAIL_LITTLE PASS_LITTLE n1,
            line FAIL_GOVERNOR PASS_GOVERNOR n3]"
proof (cases "assertStatement L a STMT_PERCENTILE None")
  case (Inl e)
  then show ?thesis using fails_percentile [OF g1 l1 g3 l3, where c = c and r = r] by simp
next
  case a1: (Inr b1)
  show ?thesis
  proof (cases "assertStatement L a STMT_MEAN (Some (SelInt 0))")
    case (Inl e)
    then show ?thesis using fails_mean [OF g1 l1 g3 l3 a1, where c = c and r = r] by simp
  next
    case a2: (Inr b2)
    show ?thesis
    proof (cases "getStatement L a STMT_STD False (Some (SelInt 0))")
      case (Inl e)
      then show ?thesis
        using fails_std [OF g1 l1 g3 l3 a1 a2, where c = c and r = r] by simp
    next
      case (Inr r4)
      then show ?thesis
        using checks_run [OF g1 l1 g3 l3 a1 a2, where c = c and r = r]
        by (simp add: final_state_def)
    qed
  qed
qed

text \<open>Once cell 6 has its answer, the first value displayed is fixed.\<close>

lemma checks_displayed_first:
  assumes g1: "getStatement L a STMT_LOAD True (Some (SelStr ''000000f0'')) = Inr r1"
    and l1: "len L r1 = Inr n1"
    and g3: "getStatement L a STMT_GOVERNOR True (Some (SelInt 0)) = Inr r3"
    and l3: "len L r3 = Inr n3"
    and a1: "assertStatement L a STMT_PERCENTILE None = Inr b1"
  shows "(\<exists>rest. displayed (run_stmts (checks L) (setup_state c r a)) =
            ShownBool b1 # rest) \<and>
         calls (run_stmts (checks L) (setup_state c r a)) ! 5 =
           Call_assertStatement a STMT_PERCENTILE None"
proof (cases "assertStatement L a STMT_MEAN (Some (SelInt 0))")
  case (Inl e)
  then show ?thesis using fails_mean [OF g1 l1 g3 l3 a1, where c = c and r = r] by (simp add: statement_calls_def)
next
  case a2: (Inr b2)
  show ?thesis
  proof (cases "getStatement L a STMT_STD False (Some (SelInt 0))")
    case (Inl e)
    then show ?thesis
      using fails_std [OF g1 l1 g3 l3 a1 a2, where c = c and r = r] by (simp add: statement_calls_def)
  next
    case (Inr r4)
    then show ?thesis
      using checks_run [OF g1 l1 g3 l3 a1 a2, where c = c and r = r]
      by (simp add: final_state_def statement_calls_def)
  qed
qed

subsection \<open>The whole notebook\<close>

lemma run_all_setup:
  assumes "trappy_Run L TRACE_PATH ''SomeBenchMark'' = Inr r"
    and "Analyzer L r (CONFIG_with q p) = Inr a"
  shows "run_stmts (notebook_with q p L) init =
           run_stmts (checks L) (setup_state (CONFIG_with q p) r a)"
  by (simp only: run_notebook_with setup_run [OF assms])

lemma run_all_eq: "run_all L = run_stmts (notebook_with 95 5 L) init"
  by (simp add: run_all_def notebook_eq)

lemma run_all_answers:
  assumes "answers L (CONFIG_with q p) r a r1 n1 r3 n3 b1 b2 r4"
  shows "run_stmts (notebook_with q p L) init =
           final_state (CONFIG_with q p) r a n1 r3 n3 b1 b2 r4"
  using assms unfolding answers_def
  by (simp only: run_all_setup) (simp add: checks_run)

lemma run_all_complete:
  assumes ok: "raised (run_stmts (notebook_with q p L) init) = None"
  shows "\<exists>r a r1 n1 r3 n3 b1 b2 r4. answers L (CONFIG_with q p) r a r1 n1 r3 n3 b1 b2 r4"
proof -
  obtain r where r: "trappy_Run L TRACE_PATH ''SomeBenchMark'' = Inr r"
    using ok setup_fails_Run [where L = L and q = q and p = p]
    by (cases "trappy_Run L TRACE_PATH ''SomeBenchMark''") auto
  obtain a where a: "Analyzer L r (CONFIG_with q p) = Inr a"
    using ok setup_fails_Analyzer [OF r, where q = q and p = p]
    by (cases "Analyzer L r (CONFIG_with q p)") auto
  from ok have "raised (run_stmts (checks L) (setup_state (CONFIG_with q p) r a)) = None"
    by (simp only: run_all_setup [OF r a])
  from checks_complete [OF this] r a show ?thesis
    unfolding answers_def by blast
qed


text \<open>Every run of the notebook ends in one of three kinds of state.\<close>

lemma run_all_cases:
  fixes L :: "('run, 'an, 'res) lib"
  obtains (Run_raises) e where
      "trappy_Run L TRACE_PATH ''SomeBenchMark'' = Inl e"
      "run_stmts (notebook_with q p L) init =
         (init :: ('run, 'an, 'res) nb_state)
           \<lparr>imported := [''trappy''], config := Some (CONFIG_with q p),
            TRACE := Some TRACE_PATH,
            calls := [Call_Run TRACE_PATH ''SomeBenchMark''], raised := Some e\<rparr>"
  | (Analyzer_raises) r e where
      "trappy_Run L TRACE_PATH ''SomeBenchMark'' = Inr r"
      "Analyzer L r (CONFIG_with q p) = Inl e"
      "run_stmts (notebook_with q p L) init =
         (init :: ('run, 'an, 'res) nb_state)
           \<lparr>imported := [''trappy'', ''bart.common.Analyzer''],
            config := Some (CONFIG_with q p), TRACE := Some TRACE_PATH, run := Some r,
            calls := [Call_Run TRACE_PATH ''SomeBenchMark'',
                      Call_Analyzer r (CONFIG_with q p)],
            raised := Some e\<rparr>"
  | (Checks) r a k res ls shs e where
      "trappy_Run L TRACE_PATH ''SomeBenchMark'' = Inr r"
      "Analyzer L r (CONFIG_with q p) = Inr a"
      "run_stmts (notebook_with q p L) init =
         state_after (CONFIG_with q p) r a k res ls shs e"
proof (cases "trappy_Run L TRACE_PATH ''SomeBenchMark''")
  case (Inl e)
  then show ?thesis using setup_fails_Run [OF Inl] Run_raises by blast
next
  case r: (Inr r)
  show ?thesis
  proof (cases "Analyzer L r (CONFIG_with q p)")
    case (Inl e)
    then show ?thesis using setup_fails_Analyzer [OF r Inl] Analyzer_raises r by blast
  next
    case a: (Inr a)
    obtain k res ls shs e where
      "run_stmts (checks L) (setup_state (CONFIG_with q p) r a) =
         state_after (CONFIG_with q p) r a k res ls shs e"
      using checks_cases [where L = L and c = "CONFIG_with q p" and r = r and a = a]
      by blast
    then show ?thesis using Checks [OF r a] run_all_setup [OF r a] by simp
  qed
qed

section \<open>The stand-in library\<close>

lemma statements_differ:
  "STMT_LOAD \<noteq> STMT_GOVERNOR" "STMT_LOAD \<noteq> STMT_PERCENTILE" "STMT_LOAD \<noteq> STMT_MEAN"
  "STMT_LOAD \<noteq> STMT_STD" "STMT_GOVERNOR \<noteq> STMT_PERCENTILE" "STMT_GOVERNOR \<noteq> STMT_MEAN"
  "STMT_GOVERNOR \<noteq> STMT_STD" "STMT_PERCENTILE \<noteq> STMT_MEAN" "STMT_PERCENTILE \<noteq> STMT_STD"
  "STMT_MEAN \<noteq> STMT_STD"
  by (simp_all add: STMT_LOAD_def STMT_GOVERNOR_def STMT_PERCENTILE_def STMT_MEAN_def
      STMT_STD_def)

lemma CONFIG_numbers:
  "cfg_num (CONFIG_with q p) ''CONTROL_TEMP'' = Some 77000"
  "cfg_num (CONFIG_with q p) ''TEMP_MARGIN'' = Some 2500"
  "cfg_num (CONFIG_with q p) ''SUSTAINABLE_POWER'' = Some 2500"
  by (simp_all add: cfg_num_def CONFIG_with_def)

lemmas model_defs = model_lib_def model_getStatement_def model_assertStatement_def
  model_len_def

lemma model_reference_selects_load:
  "reference_selects (model_lib tr) in_rows STMT_LOAD load_statement_holds"
  by (auto simp add: reference_selects_def model_defs)

lemma model_reference_selects_governor:
  "reference_selects (model_lib tr) gov_rows STMT_GOVERNOR governor_statement_holds"
  using statements_differ(1)
  by (auto simp add: reference_selects_def model_defs split: option.splits)

lemma model_percentile_statement:
  "percentile_statement (model_lib tr) THERMAL_temp percentile"
  by (auto simp add: percentile_statement_def model_defs split: if_splits option.splits)

lemma quiet_percentile: "percentile [70000, 78000] 95 = 77600"
  by (simp add: percentile_def)

lemma quiet_answers:
  "answers (model_lib quiet_trace) (CONFIG_with q p) quiet_trace
     (quiet_trace, CONFIG_with q p) (Samples_IN []) 0 (Samples_GOVERNOR []) 0 True True
     (Value (std [70000, 78000] * 100 / mean [70000, 78000]))"
  using statements_differ
  by (simp add: answers_def model_defs quiet_trace_def in_rows_def gov_rows_def
      load_statement_holds_def governor_statement_holds_def CONFIG_numbers quiet_percentile
      mean_def)

lemma hot_answers:
  "answers (model_lib hot_trace) (CONFIG_with q p) hot_trace
     (hot_trace, CONFIG_with q p)
     (Samples_IN [\<lparr>load0 = 0, load1 = 0, load2 = 0, load3 = 0, dynamic_power = 35\<rparr>]) 1
     (Samples_GOVERNOR [\<lparr>current_temperature = 81000, pid_output = 2501\<rparr>]) 1 False False
     (Value (std [81000] * 100 / mean [81000]))"
  using statements_differ
  by (simp add: answers_def model_defs hot_trace_def in_rows_def gov_rows_def
      load_statement_holds_def governor_statement_holds_def CONFIG_numbers percentile_def
      mean_def)

lemma quiet_run:
  "run_all (model_lib quiet_trace) =
     final_state CONFIG quiet_trace (quiet_trace, CONFIG) 0 (Samples_GOVERNOR []) 0 True True
       (Value (std [70000, 78000] * 100 / mean [70000, 78000]))"
  unfolding run_all_eq CONFIG_def by (rule run_all_answers [OF quiet_answers])

lemma hot_run:
  "run_all (model_lib hot_trace) =
     final_state CONFIG hot_trace (hot_trace, CONFIG) 1
       (Samples_GOVERNOR [\<lparr>current_temperature = 81000, pid_output = 2501\<rparr>]) 1 False False
       (Value (std [81000] * 100 / mean [81000]))"
  unfolding run_all_eq CONFIG_def by (rule run_all_answers [OF hot_answers])

lemma final_state_fields [simp]:
  "raised (final_state c r a n1 r3 n3 b1 b2 r4) = None"
  "stdout (final_state c r a n1 r3 n3 b1 b2 r4) =
     [line FAIL_BIG PASS_BIG n1, line FAIL_LITTLE PASS_LITTLE n1,
      line FAIL_GOVERNOR PASS_GOVERNOR n3]"
  "displayed (final_state c r a n1 r3 n3 b1 b2 r4) =
     [ShownBool b1, ShownBool b2, ShownRes r4]"
  "result (final_state c r a n1 r3 n3 b1 b2 r4) = Some r3"
  "config (final_state c r a n1 r3 n3 b1 b2 r4) = Some c"
  "run (final_state c r a n1 r3 n3 b1 b2 r4) = Some r"
  "t (final_state c r a n1 r3 n3 b1 b2 r4) = Some a"
  "imported (final_state c r a n1 r3 n3 b1 b2 r4) = [''trappy'', ''bart.common.Analyzer'']"
  "calls (final_state c r a n1 r3 n3 b1 b2 r4) =
     [Call_Run TRACE_PATH ''SomeBenchMark'', Call_Analyzer r c] @ statement_calls a"
  by (simp_all add: final_state_def statement_calls_def)

lemma messages_differ:
  "PASS_BIG \<noteq> FAIL_BIG" "PASS_LITTLE \<noteq> FAIL_LITTLE" "PASS_GOVERNOR \<noteq> FAIL_GOVERNOR"
  by (simp_all add: PASS_BIG_def FAIL_BIG_def PASS_LITTLE_def FAIL_LITTLE_def
      PASS_GOVERNOR_def FAIL_GOVERNOR_def)

section \<open>The checks\<close>

text \<open>
  C1. Whenever the run reaches the BIG-cluster check (the trace loads, the Analyzer is
  built, \<open>getStatement\<close> returns a result and \<open>len\<close> its length \<open>n\<close>), the first line
  the notebook prints is the PASS message for the BIG cluster if and only if the length
  is zero, and the FAIL message otherwise. For a library whose \<open>reference=True\<close> results
  hold the selected samples at which the statement is true, that is the case if and
  only if no sample selected by \<open>BIG\<close> has the four loads adding up to 0 and a dynamic
  power above 0.
\<close>

theorem big_check_pass_iff_empty:
  assumes "trappy_Run L TRACE_PATH ''SomeBenchMark'' = Inr r"
    and "Analyzer L r CONFIG = Inr a"
    and "getStatement L a STMT_LOAD True (Some (SelStr ''000000f0'')) = Inr res"
    and "len L res = Inr n"
  shows "stdout (run_all L) \<noteq> [] \<and>
         (hd (stdout (run_all L)) = PASS_BIG \<longleftrightarrow> n = 0) \<and>
         (hd (stdout (run_all L)) = FAIL_BIG \<longleftrightarrow> n \<noteq> 0) \<and>
         (reference_selects L rows STMT_LOAD load_statement_holds \<longrightarrow>
            (hd (stdout (run_all L)) = PASS_BIG \<longleftrightarrow>
               \<not> (\<exists>x \<in> set (rows r (SelStr ''000000f0'')).
                     load0 x + load1 x + load2 x + load3 x = 0 \<and> dynamic_power x > 0)))"
proof -
  obtain rest where out: "stdout (run_all L) = line FAIL_BIG PASS_BIG n # rest"
    using checks_stdout_two [OF assms(3,4), where c = CONFIG and r = r]
      run_all_setup [OF assms(1) assms(2) [unfolded CONFIG_def]]
    by (auto simp add: run_all_eq CONFIG_def)
  have first: "hd (stdout (run_all L)) = PASS_BIG \<longleftrightarrow> n = 0"
    using out messages_differ(1) by (auto simp add: line_def)
  have fail: "hd (stdout (run_all L)) = FAIL_BIG \<longleftrightarrow> n \<noteq> 0"
    using out messages_differ(1) by (auto simp add: line_def)
  have gloss: "n = 0 \<longleftrightarrow>
      \<not> (\<exists>x \<in> set (rows r (SelStr ''000000f0'')).
            load0 x + load1 x + load2 x + load3 x = 0 \<and> dynamic_power x > 0)"
    if "reference_selects L rows STMT_LOAD load_statement_holds"
  proof -
    from that assms(2-4)
    have "n = length (filter (load_statement_holds CONFIG) (rows r (SelStr ''000000f0'')))"
      unfolding reference_selects_def by blast
    then show ?thesis
      by (auto simp add: load_statement_holds_def filter_empty_conv)
  qed
  from out first fail gloss show ?thesis by simp
qed

theorem big_check_pass_iff_empty_witness:
  "reference_selects (model_lib quiet_trace) in_rows STMT_LOAD load_statement_holds \<and>
   len (model_lib quiet_trace) (Samples_IN []) = Inr 0 \<and>
   hd (stdout (run_all (model_lib quiet_trace))) = PASS_BIG \<and>
   \<not> (\<exists>x \<in> set (in_rows quiet_trace (SelStr ''000000f0'')).
         load0 x + load1 x + load2 x + load3 x = 0 \<and> dynamic_power x > 0)"
proof -
  have h: "answers (model_lib quiet_trace) CONFIG quiet_trace (quiet_trace, CONFIG)
      (Samples_IN []) 0 (Samples_GOVERNOR []) 0 True True
      (Value (std [70000, 78000] * 100 / mean [70000, 78000]))"
    unfolding CONFIG_def by (rule quiet_answers)
  then have
    "trappy_Run (model_lib quiet_trace) TRACE_PATH ''SomeBenchMark'' = Inr quiet_trace"
    "Analyzer (model_lib quiet_trace) quiet_trace CONFIG = Inr (quiet_trace, CONFIG)"
    "getStatement (model_lib quiet_trace) (quiet_trace, CONFIG) STMT_LOAD True
       (Some (SelStr ''000000f0'')) = Inr (Samples_IN [])"
    "len (model_lib quiet_trace) (Samples_IN []) = Inr 0"
    by (simp_all add: answers_def)
  from big_check_pass_iff_empty [OF this, of in_rows] model_reference_selects_load
  show ?thesis
    using \<open>len (model_lib quiet_trace) (Samples_IN []) = Inr 0\<close> by auto
qed


text \<open>
  C10. Whenever the run reaches the governor check (the earlier calls return, the
  governor statement returns a result and \<open>len\<close> its length \<open>n\<close>), the notebook prints
  three lines in all, and the third is the governor's PASS message if and only if the
  length is zero, the FAIL message otherwise. For a library whose \<open>reference=True\<close>
  results hold the selected samples at which the statement is true, with
  \<open>CONTROL_TEMP\<close> and \<open>SUSTAINABLE_POWER\<close> read from the configuration, PASS is printed
  if and only if no sample selected by 0 has a temperature above 77000 together with a
  granted power above 2500. In particular, if every sample above 77000 has a granted
  power of at most 2500 (exactly 2500 included), PASS is printed.
\<close>

theorem governor_check_pass_iff:
  assumes "trappy_Run L TRACE_PATH ''SomeBenchMark'' = Inr r"
    and "Analyzer L r CONFIG = Inr a"
    and "getStatement L a STMT_LOAD True (Some (SelStr ''000000f0'')) = Inr r1"
    and "len L r1 = Inr n1"
    and "getStatement L a STMT_GOVERNOR True (Some (SelInt 0)) = Inr res"
    and "len L res = Inr n"
  shows "length (stdout (run_all L)) = 3 \<and>
         (stdout (run_all L) ! 2 = PASS_GOVERNOR \<longleftrightarrow> n = 0) \<and>
         (stdout (run_all L) ! 2 = FAIL_GOVERNOR \<longleftrightarrow> n \<noteq> 0) \<and>
         (reference_selects L rows STMT_GOVERNOR governor_statement_holds \<longrightarrow>
            (stdout (run_all L) ! 2 = PASS_GOVERNOR \<longleftrightarrow>
               \<not> (\<exists>x \<in> set (rows r (SelInt 0)).
                     current_temperature x > 77000 \<and> pid_output x > 2500)) \<and>
            ((\<forall>x \<in> set (rows r (SelInt 0)).
                 current_temperature x > 77000 \<longrightarrow> pid_output x \<le> 2500) \<longrightarrow>
               stdout (run_all L) ! 2 = PASS_GOVERNOR))"
proof -
  have out: "stdout (run_all L) =
      [line FAIL_BIG PASS_BIG n1, line FAIL_LITTLE PASS_LITTLE n1,
       line FAIL_GOVERNOR PASS_GOVERNOR n]"
    using checks_stdout_three [OF assms(3-6), where c = CONFIG and r = r]
      run_all_setup [OF assms(1) assms(2) [unfolded CONFIG_def]]
    by (simp add: run_all_eq CONFIG_def)
  have pass: "stdout (run_all L) ! 2 = PASS_GOVERNOR \<longleftrightarrow> n = 0"
    using out messages_differ(3) by (auto simp add: line_def)
  have fail: "stdout (run_all L) ! 2 = FAIL_GOVERNOR \<longleftrightarrow> n \<noteq> 0"
    using out messages_differ(3) by (auto simp add: line_def)
  have gloss: "n = 0 \<longleftrightarrow>
      \<not> (\<exists>x \<in> set (rows r (SelInt 0)).
            current_temperature x > 77000 \<and> pid_output x > 2500)"
    if "reference_selects L rows STMT_GOVERNOR governor_statement_holds"
  proof -
    from that assms(2,5,6)
    have "n = length (filter (governor_statement_holds CONFIG) (rows r (SelInt 0)))"
      unfolding reference_selects_def by blast
    then show ?thesis
      by (auto simp add: governor_statement_holds_def filter_empty_conv CONFIG_def
          CONFIG_numbers)
  qed
  from out pass fail gloss show ?thesis by fastforce
qed

theorem governor_check_pass_iff_witness:
  "reference_selects (model_lib quiet_trace) gov_rows STMT_GOVERNOR governor_statement_holds \<and>
   \<lparr>current_temperature = 78000, pid_output = 2500\<rparr> \<in> set (gov_rows quiet_trace (SelInt 0)) \<and>
   \<not> (\<exists>x \<in> set (gov_rows quiet_trace (SelInt 0)).
         current_temperature x > 77000 \<and> pid_output x > 2500) \<and>
   len (model_lib quiet_trace) (Samples_GOVERNOR []) = Inr 0 \<and>
   stdout (run_all (model_lib quiet_trace)) ! 2 = PASS_GOVERNOR"
proof -
  have h: "answers (model_lib quiet_trace) CONFIG quiet_trace (quiet_trace, CONFIG)
      (Samples_IN []) 0 (Samples_GOVERNOR []) 0 True True
      (Value (std [70000, 78000] * 100 / mean [70000, 78000]))"
    unfolding CONFIG_def by (rule quiet_answers)
  then have hyps:
    "trappy_Run (model_lib quiet_trace) TRACE_PATH ''SomeBenchMark'' = Inr quiet_trace"
    "Analyzer (model_lib quiet_trace) quiet_trace CONFIG = Inr (quiet_trace, CONFIG)"
    "getStatement (model_lib quiet_trace) (quiet_trace, CONFIG) STMT_LOAD True
       (Some (SelStr ''000000f0'')) = Inr (Samples_IN [])"
    "len (model_lib quiet_trace) (Samples_IN []) = Inr 0"
    "getStatement (model_lib quiet_trace) (quiet_trace, CONFIG) STMT_GOVERNOR True
       (Some (SelInt 0)) = Inr (Samples_GOVERNOR [])"
    "len (model_lib quiet_trace) (Samples_GOVERNOR []) = Inr 0"
    by (simp_all add: answers_def)
  have sample:
    "\<lparr>current_temperature = 78000, pid_output = 2500\<rparr> \<in> set (gov_rows quiet_trace (SelInt 0))"
    by (simp add: gov_rows_def quiet_trace_def)
  from governor_check_pass_iff [OF hyps, of gov_rows] model_reference_selects_governor
    sample hyps(6)
  show ?thesis by auto
qed

text \<open>
  C8. The statement that fetches the result for the check labelled LITTLE is the same
  state transformer as the one for the BIG check: the same statement string,
  \<open>reference=True\<close> and \<open>select=BIG\<close>. Whenever the run reaches the first check, the
  third and fourth library calls are that one call on \<open>'000000f0'\<close>, the second line
  printed is PASS for LITTLE exactly when the first is PASS for BIG (and FAIL
  likewise), no call of the run selects \<open>'0000000f'\<close>, and no statement of cells 4 to 8
  reads \<open>LITTLE\<close>: running it with \<open>LITTLE\<close> bound to anything else changes nothing but
  that binding.
\<close>

theorem little_check_repeats_big:
  assumes "trappy_Run L TRACE_PATH ''SomeBenchMark'' = Inr r"
    and "Analyzer L r CONFIG = Inr a"
    and "getStatement L a STMT_LOAD True (Some (SelStr ''000000f0'')) = Inr res"
    and "len L res = Inr n"
  shows "little_get L = big_get L \<and>
         calls (run_all L) ! 2 = Call_getStatement a STMT_LOAD True (Some (SelStr ''000000f0'')) \<and>
         calls (run_all L) ! 3 = calls (run_all L) ! 2 \<and>
         (stdout (run_all L) ! 1 = PASS_LITTLE \<longleftrightarrow> stdout (run_all L) ! 0 = PASS_BIG) \<and>
         (stdout (run_all L) ! 1 = FAIL_LITTLE \<longleftrightarrow> stdout (run_all L) ! 0 = FAIL_BIG) \<and>
         (\<forall>c \<in> set (calls (run_all L)). select_of c \<noteq> Some (SelStr ''0000000f'')) \<and>
         (\<forall>f \<in> set (checks L). \<forall>s x. f (s\<lparr>LITTLE := x\<rparr>) = (f s)\<lparr>LITTLE := x\<rparr>)"
proof -
  have same: "little_get L = big_get L"
    by (simp add: little_get_def big_get_def fun_eq_iff)
  have run: "run_all L = run_stmts (checks L) (setup_state CONFIG r a)"
    using run_all_setup [OF assms(1) assms(2) [unfolded CONFIG_def]]
    by (simp add: run_all_eq CONFIG_def)
  from checks_stdout_two [OF assms(3,4), where c = CONFIG and r = r]
  obtain rest where
    out: "stdout (run_all L) =
      line FAIL_BIG PASS_BIG n # line FAIL_LITTLE PASS_LITTLE n # rest"
    and four: "take 4 (calls (run_all L)) =
      [Call_Run TRACE_PATH ''SomeBenchMark'', Call_Analyzer r CONFIG,
       Call_getStatement a STMT_LOAD True (Some (SelStr ''000000f0'')),
       Call_getStatement a STMT_LOAD True (Some (SelStr ''000000f0''))]"
    unfolding run by blast
  have "calls (run_all L) ! 2 = take 4 (calls (run_all L)) ! 2"
    and "calls (run_all L) ! 3 = take 4 (calls (run_all L)) ! 3"
    by simp_all
  then have third: "calls (run_all L) ! 2 =
      Call_getStatement a STMT_LOAD True (Some (SelStr ''000000f0''))"
    and fourth: "calls (run_all L) ! 3 = calls (run_all L) ! 2"
    unfolding four by simp_all
  have lines: "stdout (run_all L) ! 1 = PASS_LITTLE \<longleftrightarrow> stdout (run_all L) ! 0 = PASS_BIG"
    "stdout (run_all L) ! 1 = FAIL_LITTLE \<longleftrightarrow> stdout (run_all L) ! 0 = FAIL_BIG"
    using out messages_differ by (auto simp add: line_def)
  obtain k res' ls shs e where
    "run_all L = state_after CONFIG r a k res' ls shs e"
    using checks_cases [where L = L and c = CONFIG and r = r and a = a] run by auto
  then have sel: "\<forall>c \<in> set (calls (run_all L)). select_of c \<noteq> Some (SelStr ''0000000f'')"
    by (auto simp add: statement_calls_def dest!: in_set_takeD)
  have unread: "\<forall>f \<in> set (checks L). \<forall>s x. f (s\<lparr>LITTLE := x\<rparr>) = (f s)\<lparr>LITTLE := x\<rparr>"
    by (simp add: checks_def cell4_def cell5_def cell6_def cell7_def cell8_def stmt_defs
        split: option.splits sum.splits)
  from same third fourth lines sel unread show ?thesis by blast
qed


theorem little_check_repeats_big_witness:
  "stdout (run_all (model_lib hot_trace)) ! 0 = FAIL_BIG \<and>
   stdout (run_all (model_lib hot_trace)) ! 1 = FAIL_LITTLE \<and>
   calls (run_all (model_lib hot_trace)) ! 3 =
     Call_getStatement (hot_trace, CONFIG) STMT_LOAD True (Some (SelStr ''000000f0''))"
proof -
  have h: "answers (model_lib hot_trace) CONFIG hot_trace (hot_trace, CONFIG)
     (Samples_IN [\<lparr>load0 = 0, load1 = 0, load2 = 0, load3 = 0, dynamic_power = 35\<rparr>]) 1
     (Samples_GOVERNOR [\<lparr>current_temperature = 81000, pid_output = 2501\<rparr>]) 1 False False
     (Value (std [81000] * 100 / mean [81000]))"
    unfolding CONFIG_def by (rule hot_answers)
  then have hyps:
    "trappy_Run (model_lib hot_trace) TRACE_PATH ''SomeBenchMark'' = Inr hot_trace"
    "Analyzer (model_lib hot_trace) hot_trace CONFIG = Inr (hot_trace, CONFIG)"
    "getStatement (model_lib hot_trace) (hot_trace, CONFIG) STMT_LOAD True
       (Some (SelStr ''000000f0'')) =
     Inr (Samples_IN [\<lparr>load0 = 0, load1 = 0, load2 = 0, load3 = 0, dynamic_power = 35\<rparr>])"
    "len (model_lib hot_trace)
       (Samples_IN [\<lparr>load0 = 0, load1 = 0, load2 = 0, load3 = 0, dynamic_power = 35\<rparr>]) = Inr 1"
    by (simp_all add: answers_def)
  have first: "stdout (run_all (model_lib hot_trace)) ! 0 = FAIL_BIG"
    by (simp add: hot_run line_def)
  from little_check_repeats_big [OF hyps] first show ?thesis by simp
qed

section \<open>The percentile assertion\<close>

text \<open>
  C2 (the evaluator modelled from the spec). Whenever the run reaches cell 6 and
  \<open>assertStatement\<close> returns \<open>b\<close> for the percentile statement, called with the default
  \<open>select\<close>, the cell displays \<open>b\<close> as its value. The configuration the Analyzer was
  built with binds \<open>CONTROL_TEMP\<close> to 77000 and \<open>TEMP_MARGIN\<close> to 2500, so for a library
  that evaluates the statement as written (the 95th percentile of the temperature
  series against the sum of the two entries), \<open>b\<close> is true if and only if that
  percentile is strictly below 79500.
\<close>

theorem percentile_assert_threshold:
  assumes "trappy_Run L TRACE_PATH ''SomeBenchMark'' = Inr r"
    and "Analyzer L r CONFIG = Inr a"
    and "getStatement L a STMT_LOAD True (Some (SelStr ''000000f0'')) = Inr r1"
    and "len L r1 = Inr n1"
    and "getStatement L a STMT_GOVERNOR True (Some (SelInt 0)) = Inr r3"
    and "len L r3 = Inr n3"
    and "assertStatement L a STMT_PERCENTILE None = Inr b"
    and "percentile_statement L temp pctl"
  shows "displayed (run_all L) \<noteq> [] \<and>
         hd (displayed (run_all L)) = ShownBool b \<and>
         calls (run_all L) ! 5 = Call_assertStatement a STMT_PERCENTILE None \<and>
         cfg_num CONFIG ''CONTROL_TEMP'' = Some 77000 \<and>
         cfg_num CONFIG ''TEMP_MARGIN'' = Some 2500 \<and>
         (b \<longleftrightarrow> pctl (temp r) 95 < 79500)"
proof -
  have run: "run_all L = run_stmts (checks L) (setup_state CONFIG r a)"
    using run_all_setup [OF assms(1) assms(2) [unfolded CONFIG_def]]
    by (simp add: run_all_eq CONFIG_def)
  from checks_displayed_first [OF assms(3-7), where c = CONFIG and r = r]
  obtain rest where shown: "displayed (run_all L) = ShownBool b # rest"
    and call: "calls (run_all L) ! 5 = Call_assertStatement a STMT_PERCENTILE None"
    unfolding run by blast
  from assms(8) assms(2) assms(7)
  obtain ct m where "cfg_num CONFIG ''CONTROL_TEMP'' = Some ct"
    and "cfg_num CONFIG ''TEMP_MARGIN'' = Some m"
    and "b = (pctl (temp r) 95 < real_of_int (ct + m))"
    unfolding percentile_statement_def by blast
  then have "b \<longleftrightarrow> pctl (temp r) 95 < 79500"
    by (simp add: CONFIG_def CONFIG_numbers)
  with shown call show ?thesis
    by (simp add: CONFIG_def CONFIG_numbers)
qed

theorem percentile_assert_threshold_witness:
  "percentile_statement (model_lib quiet_trace) THERMAL_temp percentile \<and>
   percentile (THERMAL_temp quiet_trace) 95 = 77600 \<and>
   assertStatement (model_lib quiet_trace) (quiet_trace, CONFIG) STMT_PERCENTILE None = Inr True \<and>
   hd (displayed (run_all (model_lib quiet_trace))) = ShownBool True"
proof -
  have h: "answers (model_lib quiet_trace) CONFIG quiet_trace (quiet_trace, CONFIG)
      (Samples_IN []) 0 (Samples_GOVERNOR []) 0 True True
      (Value (std [70000, 78000] * 100 / mean [70000, 78000]))"
    unfolding CONFIG_def by (rule quiet_answers)
  then have hyps:
    "trappy_Run (model_lib quiet_trace) TRACE_PATH ''SomeBenchMark'' = Inr quiet_trace"
    "Analyzer (model_lib quiet_trace) quiet_trace CONFIG = Inr (quiet_trace, CONFIG)"
    "getStatement (model_lib quiet_trace) (quiet_trace, CONFIG) STMT_LOAD True
       (Some (SelStr ''000000f0'')) = Inr (Samples_IN [])"
    "len (model_lib quiet_trace) (Samples_IN []) = Inr 0"
    "getStatement (model_lib quiet_trace) (quiet_trace, CONFIG) STMT_GOVERNOR True
       (Some (SelInt 0)) = Inr (Samples_GOVERNOR [])"
    "len (model_lib quiet_trace) (Samples_GOVERNOR []) = Inr 0"
    "assertStatement (model_lib quiet_trace) (quiet_trace, CONFIG) STMT_PERCENTILE None =
       Inr True"
    by (simp_all add: answers_def)
  have pct: "percentile (THERMAL_temp quiet_trace) 95 = 77600"
    by (simp add: quiet_trace_def quiet_percentile)
  from percentile_assert_threshold [OF hyps model_percentile_statement] pct hyps(7)
    model_percentile_statement [of quiet_trace]
  show ?thesis by simp
qed


section \<open>The notebook as a whole\<close>

lemma run_all_final:
  assumes "answers L CONFIG r a r1 n1 r3 n3 b1 b2 r4"
  shows "run_all L = final_state CONFIG r a n1 r3 n3 b1 b2 r4"
  using run_all_answers [OF assms [unfolded CONFIG_def]] by (simp add: run_all_eq CONFIG_def)

lemma run_all_checks:
  assumes "trappy_Run L TRACE_PATH ''SomeBenchMark'' = Inr r"
    and "Analyzer L r CONFIG = Inr a"
  shows "run_all L = run_stmts (checks L) (setup_state CONFIG r a)"
  using run_all_setup [OF assms(1) assms(2) [unfolded CONFIG_def]]
  by (simp add: run_all_eq CONFIG_def)

lemma silent_run:
  "run_all (model_lib silent_trace) =
     state_after CONFIG silent_trace (silent_trace, CONFIG) 4 (Some (Samples_GOVERNOR []))
       [PASS_BIG, PASS_LITTLE, PASS_GOVERNOR] [] (Some (LibraryError ''statement''))"
proof -
  have "run_all (model_lib silent_trace) =
      run_stmts (checks (model_lib silent_trace))
        (setup_state CONFIG silent_trace (silent_trace, CONFIG))"
    by (rule run_all_checks) (simp_all add: model_lib_def)
  also have "\<dots> =
      state_after CONFIG silent_trace (silent_trace, CONFIG) 4 (Some (Samples_GOVERNOR []))
        [line FAIL_BIG PASS_BIG 0, line FAIL_LITTLE PASS_LITTLE 0,
         line FAIL_GOVERNOR PASS_GOVERNOR 0] [] (Some (LibraryError ''statement''))"
    using statements_differ
    by (intro fails_percentile [where ?r1.0 = "Samples_IN []"])
      (simp_all add: model_defs silent_trace_def in_rows_def gov_rows_def CONFIG_def
        CONFIG_numbers)
  finally show ?thesis by (simp add: line_def)
qed

text \<open>
  C3 (amended). In every run that ends without an exception the notebook makes six
  calls to \<open>getStatement\<close> and \<open>assertStatement\<close>. Five of them are assertions: the
  three \<open>getStatement\<close> calls with \<open>reference=True\<close>, each followed by a PASS or FAIL
  line, and the two \<open>assertStatement\<close> calls. The sixth call only displays a number.
\<close>

theorem assertion_calls_count:
  assumes "raised (run_all L) = None"
  shows "length (filter is_entry_point (calls (run_all L))) = 6 \<and>
         length (filter is_assertion (calls (run_all L))) = 5 \<and>
         map statement_of (filter is_assertion (calls (run_all L))) =
           [Some STMT_LOAD, Some STMT_LOAD, Some STMT_GOVERNOR, Some STMT_PERCENTILE,
            Some STMT_MEAN] \<and>
         map statement_of (filter (\<lambda>c. is_entry_point c \<and> \<not> is_assertion c)
             (calls (run_all L))) = [Some STMT_STD]"
proof -
  from assms obtain r a r1 n1 r3 n3 b1 b2 r4
    where "answers L CONFIG r a r1 n1 r3 n3 b1 b2 r4"
    using run_all_complete [where L = L and q = 95 and p = 5]
    by (auto simp add: run_all_eq CONFIG_def)
  then have "calls (run_all L) =
      [Call_Run TRACE_PATH ''SomeBenchMark'', Call_Analyzer r CONFIG] @ statement_calls a"
    by (simp add: run_all_final)
  then show ?thesis
    using statements_differ by (simp add: statement_calls_def)
qed

theorem assertion_calls_count_witness:
  "raised (run_all (model_lib hot_trace)) = None \<and>
   length (filter is_assertion (calls (run_all (model_lib hot_trace)))) = 5 \<and>
   length (filter is_entry_point (calls (run_all (model_lib hot_trace)))) = 6"
proof -
  have ok: "raised (run_all (model_lib hot_trace)) = None"
    by (simp add: hot_run)
  from assertion_calls_count [OF ok] ok show ?thesis by simp
qed

text \<open>
  Read as a count of calls, the spec's four assertion invocations fail on the quiet
  trace: the run ends without an exception after five calls that are assertions, out of
  six calls to the two entry points.
\<close>

theorem four_assertion_calls_counterexample:
  "raised (run_all (model_lib quiet_trace)) = None \<and>
   length (filter is_assertion (calls (run_all (model_lib quiet_trace)))) = 5 \<and>
   length (filter is_entry_point (calls (run_all (model_lib quiet_trace)))) = 6 \<and>
   length (filter is_assertion (calls (run_all (model_lib quiet_trace)))) \<noteq> 4"
  by (simp add: quiet_run statement_calls_def)

text \<open>
  C4. A run ends without a pending exception if and only if every library call
  returned: the notebook raises nothing of its own and swallows nothing. In such a run
  all eight library calls are made and exactly three lines are printed, one for each
  \<open>getStatement\<close>-based check: its PASS message when the result has length zero and its
  FAIL message otherwise, whatever the other checks gave. The PASS messages begin with
  \<open>PASS:\<close> and the FAIL messages with \<open>FAIL:\<close>. When a call of a check or of an
  assertion raises, the exception ends the run as it is, with only the lines of the
  checks before it printed.
\<close>

theorem checks_only_print:
  "(raised (run_all L) = None \<longleftrightarrow>
      (\<exists>r a r1 n1 r3 n3 b1 b2 r4. answers L CONFIG r a r1 n1 r3 n3 b1 b2 r4)) \<and>
   (\<forall>r a r1 n1 r3 n3 b1 b2 r4. answers L CONFIG r a r1 n1 r3 n3 b1 b2 r4 \<longrightarrow>
      stdout (run_all L) =
        [if n1 = 0 then PASS_BIG else FAIL_BIG,
         if n1 = 0 then PASS_LITTLE else FAIL_LITTLE,
         if n3 = 0 then PASS_GOVERNOR else FAIL_GOVERNOR] \<and>
      length (calls (run_all L)) = 8 \<and> length (displayed (run_all L)) = 3) \<and>
   prefix ''PASS:'' PASS_BIG \<and> prefix ''PASS:'' PASS_LITTLE \<and> prefix ''PASS:'' PASS_GOVERNOR \<and>
   prefix ''FAIL:'' FAIL_BIG \<and> prefix ''FAIL:'' FAIL_LITTLE \<and> prefix ''FAIL:'' FAIL_GOVERNOR \<and>
   (\<forall>r a e. trappy_Run L TRACE_PATH ''SomeBenchMark'' = Inr r \<and>
      Analyzer L r CONFIG = Inr a \<and>
      getStatement L a STMT_LOAD True (Some (SelStr ''000000f0'')) = Inl e \<longrightarrow>
      raised (run_all L) = Some e \<and> stdout (run_all L) = []) \<and>
   (\<forall>r a r1 e. trappy_Run L TRACE_PATH ''SomeBenchMark'' = Inr r \<and>
      Analyzer L r CONFIG = Inr a \<and>
      getStatement L a STMT_LOAD True (Some (SelStr ''000000f0'')) = Inr r1 \<and>
      len L r1 = Inl e \<longrightarrow>
      raised (run_all L) = Some e \<and> stdout (run_all L) = []) \<and>
   (\<forall>r a r1 n1 e. trappy_Run L TRACE_PATH ''SomeBenchMark'' = Inr r \<and>
      Analyzer L r CONFIG = Inr a \<and>
      getStatement L a STMT_LOAD True (Some (SelStr ''000000f0'')) = Inr r1 \<and>
      len L r1 = Inr n1 \<and>
      getStatement L a STMT_GOVERNOR True (Some (SelInt 0)) = Inl e \<longrightarrow>
      raised (run_all L) = Some e \<and>
      stdout (run_all L) =
        [if n1 = 0 then PASS_BIG else FAIL_BIG, if n1 = 0 then PASS_LITTLE else FAIL_LITTLE]) \<and>
   (\<forall>r a r1 n1 r3 e. trappy_Run L TRACE_PATH ''SomeBenchMark'' = Inr r \<and>
      Analyzer L r CONFIG = Inr a \<and>
      getStatement L a STMT_LOAD True (Some (SelStr ''000000f0'')) = Inr r1 \<and>
      len L r1 = Inr n1 \<and>
      getStatement L a STMT_GOVERNOR True (Some (SelInt 0)) = Inr r3 \<and>
      len L r3 = Inl e \<longrightarrow>
      raised (run_all L) = Some e \<and>
      stdout (run_all L) =
        [if n1 = 0 then PASS_BIG else FAIL_BIG, if n1 = 0 then PASS_LITTLE else FAIL_LITTLE]) \<and>
   (\<forall>r a r1 n1 r3 n3 e. trappy_Run L TRACE_PATH ''SomeBenchMark'' = Inr r \<and>
      Analyzer L r CONFIG = Inr a \<and>
      getStatement L a STMT_LOAD True (Some (SelStr ''000000f0'')) = Inr r1 \<and>
      len L r1 = Inr n1 \<and>
      getStatement L a STMT_GOVERNOR True (Some (SelInt 0)) = Inr r3 \<and>
      len L r3 = Inr n3 \<and>
      assertStatement L a STMT_PERCENTILE None = Inl e \<longrightarrow>
      raised (run_all L) = Some e \<and> displayed (run_all L) = [] \<and>
      stdout (run_all L) =
        [if n1 = 0 then PASS_BIG else FAIL_BIG, if n1 = 0 then PASS_LITTLE else FAIL_LITTLE,
         if n3 = 0 then PASS_GOVERNOR else FAIL_GOVERNOR]) \<and>
   (\<forall>r a r1 n1 r3 n3 b1 e. trappy_Run L TRACE_PATH ''SomeBenchMark'' = Inr r \<and>
      Analyzer L r CONFIG = Inr a \<and>
      getStatement L a STMT_LOAD True (Some (SelStr ''000000f0'')) = Inr r1 \<and>
      len L r1 = Inr n1 \<and>
      getStatement L a STMT_GOVERNOR True (Some (SelInt 0)) = Inr r3 \<and>
      len L r3 = Inr n3 \<and>
      assertStatement L a STMT_PERCENTILE None = Inr b1 \<and>
      assertStatement L a STMT_MEAN (Some (SelInt 0)) = Inl e \<longrightarrow>
      raised (run_all L) = Some e \<and> displayed (run_all L) = [ShownBool b1])"
proof -
  have complete: "raised (run_all L) = None \<longleftrightarrow>
      (\<exists>r a r1 n1 r3 n3 b1 b2 r4. answers L CONFIG r a r1 n1 r3 n3 b1 b2 r4)"
  proof
    assume "raised (run_all L) = None"
    then show "\<exists>r a r1 n1 r3 n3 b1 b2 r4. answers L CONFIG r a r1 n1 r3 n3 b1 b2 r4"
      using run_all_complete [where L = L and q = 95 and p = 5]
      by (simp add: run_all_eq CONFIG_def)
  next
    assume "\<exists>r a r1 n1 r3 n3 b1 b2 r4. answers L CONFIG r a r1 n1 r3 n3 b1 b2 r4"
    then show "raised (run_all L) = None"
      by (auto simp add: run_all_final)
  qed
  have printed: "stdout (run_all L) =
        [if n1 = 0 then PASS_BIG else FAIL_BIG,
         if n1 = 0 then PASS_LITTLE else FAIL_LITTLE,
         if n3 = 0 then PASS_GOVERNOR else FAIL_GOVERNOR] \<and>
      length (calls (run_all L)) = 8 \<and> length (displayed (run_all L)) = 3"
    if "answers L CONFIG r a r1 n1 r3 n3 b1 b2 r4" for r a r1 n1 r3 n3 b1 b2 r4
    using that by (simp add: run_all_final line_def statement_calls_def)
  have words: "prefix ''PASS:'' PASS_BIG" "prefix ''PASS:'' PASS_LITTLE"
    "prefix ''PASS:'' PASS_GOVERNOR" "prefix ''FAIL:'' FAIL_BIG"
    "prefix ''FAIL:'' FAIL_LITTLE" "prefix ''FAIL:'' FAIL_GOVERNOR"
    by (simp_all add: PASS_BIG_def PASS_LITTLE_def PASS_GOVERNOR_def FAIL_BIG_def
        FAIL_LITTLE_def FAIL_GOVERNOR_def)
  have f1: "raised (run_all L) = Some e \<and> stdout (run_all L) = []"
    if "trappy_Run L TRACE_PATH ''SomeBenchMark'' = Inr r" "Analyzer L r CONFIG = Inr a"
      "getStatement L a STMT_LOAD True (Some (SelStr ''000000f0'')) = Inl e" for r a e
    using that by (simp add: run_all_checks fails_big_get)
  have f2: "raised (run_all L) = Some e \<and> stdout (run_all L) = []"
    if "trappy_Run L TRACE_PATH ''SomeBenchMark'' = Inr r" "Analyzer L r CONFIG = Inr a"
      "getStatement L a STMT_LOAD True (Some (SelStr ''000000f0'')) = Inr r1"
      "len L r1 = Inl e" for r a r1 e
    using that by (simp add: run_all_checks fails_big_len)
  have f3: "raised (run_all L) = Some e \<and>
      stdout (run_all L) =
        [if n1 = 0 then PASS_BIG else FAIL_BIG, if n1 = 0 then PASS_LITTLE else FAIL_LITTLE]"
    if "trappy_Run L TRACE_PATH ''SomeBenchMark'' = Inr r" "Analyzer L r CONFIG = Inr a"
      "getStatement L a STMT_LOAD True (Some (SelStr ''000000f0'')) = Inr r1"
      "len L r1 = Inr n1"
      "getStatement L a STMT_GOVERNOR True (Some (SelInt 0)) = Inl e" for r a r1 n1 e
    using that by (simp add: run_all_checks fails_governor_get line_def)
  have f4: "raised (run_all L) = Some e \<and>
      stdout (run_all L) =
        [if n1 = 0 then PASS_BIG else FAIL_BIG, if n1 = 0 then PASS_LITTLE else FAIL_LITTLE]"
    if "trappy_Run L TRACE_PATH ''SomeBenchMark'' = Inr r" "Analyzer L r CONFIG = Inr a"
      "getStatement L a STMT_LOAD True (Some (SelStr ''000000f0'')) = Inr r1"
      "len L r1 = Inr n1"
      "getStatement L a STMT_GOVERNOR True (Some (SelInt 0)) = Inr r3"
      "len L r3 = Inl e" for r a r1 n1 r3 e
    using that by (simp add: run_all_checks fails_governor_len line_def)
  have f5: "raised (run_all L) = Some e \<and> displayed (run_all L) = [] \<and>
      stdout (run_all L) =
        [if n1 = 0 then PASS_BIG else FAIL_BIG, if n1 = 0 then PASS_LITTLE else FAIL_LITTLE,
         if n3 = 0 then PASS_GOVERNOR else FAIL_GOVERNOR]"
    if "trappy_Run L TRACE_PATH ''SomeBenchMark'' = Inr r" "Analyzer L r CONFIG = Inr a"
      "getStatement L a STMT_LOAD True (Some (SelStr ''000000f0'')) = Inr r1"
      "len L r1 = Inr n1"
      "getStatement L a STMT_GOVERNOR True (Some (SelInt 0)) = Inr r3"
      "len L r3 = Inr n3"
      "assertStatement L a STMT_PERCENTILE None = Inl e" for r a r1 n1 r3 n3 e
    using that by (simp add: run_all_checks fails_percentile line_def)
  have f6: "raised (run_all L) = Some e \<and> displayed (run_all L) = [ShownBool b1]"
    if "trappy_Run L TRACE_PATH ''SomeBenchMark'' = Inr r" "Analyzer L r CONFIG = Inr a"
      "getStatement L a STMT_LOAD True (Some (SelStr ''000000f0'')) = Inr r1"
      "len L r1 = Inr n1"
      "getStatement L a STMT_GOVERNOR True (Some (SelInt 0)) = Inr r3"
      "len L r3 = Inr n3"
      "assertStatement L a STMT_PERCENTILE None = Inr b1"
      "assertStatement L a STMT_MEAN (Some (SelInt 0)) = Inl e" for r a r1 n1 r3 n3 b1 e
    using that by (simp add: run_all_checks fails_mean)
  show ?thesis
    apply (intro conjI allI impI)
    subgoal by (rule complete)
    subgoal using printed by blast
    subgoal using printed by blast
    subgoal using printed by blast
    subgoal by (rule words)
    subgoal by (rule words)
    subgoal by (rule words)
    subgoal by (rule words)
    subgoal by (rule words)
    subgoal by (rule words)
    subgoal using f1 by blast
    subgoal using f1 by blast
    subgoal using f2 by blast
    subgoal using f2 by blast
    subgoal using f3 by blast
    subgoal using f3 by blast
    subgoal using f4 by blast
    subgoal using f4 by blast
    subgoal using f5 by blast
    subgoal using f5 by blast
    subgoal using f5 by blast
    subgoal using f6 by blast
    subgoal using f6 by blast
    done
qed


theorem checks_only_print_witness:
  "raised (run_all (model_lib quiet_trace)) = None \<and>
   stdout (run_all (model_lib quiet_trace)) = [PASS_BIG, PASS_LITTLE, PASS_GOVERNOR] \<and>
   stdout (run_all (model_lib hot_trace)) = [FAIL_BIG, FAIL_LITTLE, FAIL_GOVERNOR] \<and>
   length (calls (run_all (model_lib hot_trace))) = 8 \<and>
   assertStatement (model_lib silent_trace) (silent_trace, CONFIG) STMT_PERCENTILE None =
     Inl (LibraryError ''statement'') \<and>
   raised (run_all (model_lib silent_trace)) = Some (LibraryError ''statement'') \<and>
   stdout (run_all (model_lib silent_trace)) = [PASS_BIG, PASS_LITTLE, PASS_GOVERNOR]"
proof -
  have quiet: "answers (model_lib quiet_trace) CONFIG quiet_trace (quiet_trace, CONFIG)
      (Samples_IN []) 0 (Samples_GOVERNOR []) 0 True True
      (Value (std [70000, 78000] * 100 / mean [70000, 78000]))"
    unfolding CONFIG_def by (rule quiet_answers)
  have hot: "answers (model_lib hot_trace) CONFIG hot_trace (hot_trace, CONFIG)
     (Samples_IN [\<lparr>load0 = 0, load1 = 0, load2 = 0, load3 = 0, dynamic_power = 35\<rparr>]) 1
     (Samples_GOVERNOR [\<lparr>current_temperature = 81000, pid_output = 2501\<rparr>]) 1 False False
     (Value (std [81000] * 100 / mean [81000]))"
    unfolding CONFIG_def by (rule hot_answers)
  have silent:
    "trappy_Run (model_lib silent_trace) TRACE_PATH ''SomeBenchMark'' = Inr silent_trace"
    "Analyzer (model_lib silent_trace) silent_trace CONFIG = Inr (silent_trace, CONFIG)"
    "getStatement (model_lib silent_trace) (silent_trace, CONFIG) STMT_LOAD True
       (Some (SelStr ''000000f0'')) = Inr (Samples_IN [])"
    "len (model_lib silent_trace) (Samples_IN []) = Inr 0"
    "getStatement (model_lib silent_trace) (silent_trace, CONFIG) STMT_GOVERNOR True
       (Some (SelInt 0)) = Inr (Samples_GOVERNOR [])"
    "len (model_lib silent_trace) (Samples_GOVERNOR []) = Inr 0"
    "assertStatement (model_lib silent_trace) (silent_trace, CONFIG) STMT_PERCENTILE None =
       Inl (LibraryError ''statement'')"
    using statements_differ
    by (simp_all add: model_defs silent_trace_def in_rows_def gov_rows_def CONFIG_def
        CONFIG_numbers)
  note q = checks_only_print [of "model_lib quiet_trace"]
  note h = checks_only_print [of "model_lib hot_trace"]
  have 1: "raised (run_all (model_lib quiet_trace)) = None"
    using conjunct1 [OF q] quiet by blast
  have 2: "stdout (run_all (model_lib quiet_trace)) = [PASS_BIG, PASS_LITTLE, PASS_GOVERNOR]"
    using conjunct1 [OF conjunct2 [OF q], rule_format, OF quiet] by simp
  have 3: "stdout (run_all (model_lib hot_trace)) = [FAIL_BIG, FAIL_LITTLE, FAIL_GOVERNOR] \<and>
      length (calls (run_all (model_lib hot_trace))) = 8"
    using conjunct1 [OF conjunct2 [OF h], rule_format, OF hot] by simp
  have 4: "raised (run_all (model_lib silent_trace)) = Some (LibraryError ''statement'') \<and>
      stdout (run_all (model_lib silent_trace)) = [PASS_BIG, PASS_LITTLE, PASS_GOVERNOR]"
    using checks_only_print [of "model_lib silent_trace", THEN conjunct2, THEN conjunct2,
        THEN conjunct2, THEN conjunct2, THEN conjunct2, THEN conjunct2, THEN conjunct2,
        THEN conjunct2, THEN conjunct2, THEN conjunct2, THEN conjunct2, THEN conjunct2,
        THEN conjunct1, rule_format, of silent_trace "(silent_trace, CONFIG)"
        "Samples_IN []" 0 "Samples_GOVERNOR []" 0 "LibraryError ''statement''"]
      silent
    by simp
  from 1 2 3 4 silent(7) show ?thesis by simp
qed


section \<open>Configuration, trace and Analyzer\<close>

lemma run_all_kinds:
  fixes L :: "('run, 'an, 'res) lib"
  obtains (Run_raises) e where
      "trappy_Run L TRACE_PATH ''SomeBenchMark'' = Inl e"
      "run_all L =
         (init :: ('run, 'an, 'res) nb_state)
           \<lparr>imported := [''trappy''], config := Some CONFIG, TRACE := Some TRACE_PATH,
            calls := [Call_Run TRACE_PATH ''SomeBenchMark''], raised := Some e\<rparr>"
  | (Analyzer_raises) r e where
      "trappy_Run L TRACE_PATH ''SomeBenchMark'' = Inr r"
      "Analyzer L r CONFIG = Inl e"
      "run_all L =
         (init :: ('run, 'an, 'res) nb_state)
           \<lparr>imported := [''trappy'', ''bart.common.Analyzer''],
            config := Some CONFIG, TRACE := Some TRACE_PATH, run := Some r,
            calls := [Call_Run TRACE_PATH ''SomeBenchMark'', Call_Analyzer r CONFIG],
            raised := Some e\<rparr>"
  | (Checks) r a k res ls shs e where
      "trappy_Run L TRACE_PATH ''SomeBenchMark'' = Inr r"
      "Analyzer L r CONFIG = Inr a"
      "run_all L = state_after CONFIG r a k res ls shs e"
proof (cases rule: run_all_cases [where L = L and q = 95 and p = 5])
  case (Run_raises e)
  then show ?thesis using that(1) [of e] by (simp add: run_all_eq CONFIG_def)
next
  case (Analyzer_raises r e)
  then show ?thesis using that(2) [of r e] by (simp add: run_all_eq CONFIG_def)
next
  case (Checks r a k res ls shs e)
  then show ?thesis using that(3) [of r a k res ls shs e] by (simp add: run_all_eq CONFIG_def)
qed

lemma CONFIG_classes:
  "{(k, c). map_of CONFIG k = Some (Cls c)} =
     {(''THERMAL'', Thermal), (''OUT'', CpuOutPower), (''IN'', CpuInPower),
      (''PID'', PIDController), (''GOVERNOR'', ThermalGovernor)}"
  by (auto simp add: CONFIG_def CONFIG_with_def split: if_splits)

text \<open>
  C5. Cell 1, which makes no library call, leaves \<open>config\<close> bound to a dictionary in
  which exactly five names are bound to event classes: \<open>THERMAL\<close>, \<open>OUT\<close>, \<open>IN\<close>, \<open>PID\<close>
  and \<open>GOVERNOR\<close>, to \<open>Thermal\<close>, \<open>CpuOutPower\<close>, \<open>CpuInPower\<close>, \<open>PIDController\<close> and
  \<open>ThermalGovernor\<close>. In every run \<open>config\<close> is still that dictionary at the end, the
  Analyzer constructor is called with the loaded trace and that dictionary, and every
  statement is evaluated on the Analyzer that call returned.
\<close>

theorem config_event_classes:
  fixes L :: "('run, 'an, 'res) lib"
  shows "config (run_stmts cell1 (init :: ('run, 'an, 'res) nb_state)) = Some CONFIG \<and>
         calls (run_stmts cell1 (init :: ('run, 'an, 'res) nb_state)) = [] \<and>
         {(k, c). map_of CONFIG k = Some (Cls c)} =
           {(''THERMAL'', Thermal), (''OUT'', CpuOutPower), (''IN'', CpuInPower),
            (''PID'', PIDController), (''GOVERNOR'', ThermalGovernor)} \<and>
         config (run_all L) = Some CONFIG \<and>
         (\<forall>c \<in> set (calls (run_all L)). is_Analyzer c \<longrightarrow>
            (\<exists>r. trappy_Run L TRACE_PATH ''SomeBenchMark'' = Inr r \<and>
                 c = Call_Analyzer r CONFIG)) \<and>
         (\<forall>c \<in> set (calls (run_all L)). \<forall>a. receiver c = Some a \<longrightarrow>
            t (run_all L) = Some a \<and> (\<exists>r. Analyzer L r CONFIG = Inr a))"
proof -
  have cell: "config (run_stmts cell1 (init :: ('run, 'an, 'res) nb_state)) = Some CONFIG"
    "calls (run_stmts cell1 (init :: ('run, 'an, 'res) nb_state)) = []"
    unfolding cell1_def cell1_run by (simp_all add: CONFIG_def init_def)
  have rest: "config (run_all L) = Some CONFIG \<and>
         (\<forall>c \<in> set (calls (run_all L)). is_Analyzer c \<longrightarrow>
            (\<exists>r. trappy_Run L TRACE_PATH ''SomeBenchMark'' = Inr r \<and>
                 c = Call_Analyzer r CONFIG)) \<and>
         (\<forall>c \<in> set (calls (run_all L)). \<forall>a. receiver c = Some a \<longrightarrow>
            t (run_all L) = Some a \<and> (\<exists>r. Analyzer L r CONFIG = Inr a))"
  proof (cases L rule: run_all_kinds)
    case (Run_raises e)
    then show ?thesis by (simp add: init_def)
  next
    case (Analyzer_raises r e)
    then show ?thesis by (simp add: init_def)
  next
    case (Checks r a k res ls shs e)
    have stmts: "\<forall>c \<in> set (take k (statement_calls a :: ('run, 'an, 'res) call list)).
        \<not> is_Analyzer c \<and> receiver c = Some a"
      by (auto simp add: statement_calls_def dest!: in_set_takeD)
    have "config (run_all L) = Some CONFIG" and "t (run_all L) = Some a"
      and "calls (run_all L) =
        [Call_Run TRACE_PATH ''SomeBenchMark'', Call_Analyzer r CONFIG]
        @ take k (statement_calls a)"
      by (simp_all add: Checks(3))
    with stmts Checks(1,2) show ?thesis by auto
  qed
  from cell CONFIG_classes rest show ?thesis by blast
qed


theorem config_event_classes_witness:
  "map_of CONFIG ''IN'' = Some (Cls CpuInPower) \<and>
   is_Analyzer (Call_Analyzer hot_trace CONFIG :: (model_trace, model_trace \<times> config, model_result) call) \<and>
   Call_Analyzer hot_trace CONFIG \<in> set (calls (run_all (model_lib hot_trace))) \<and>
   config (run_all (model_lib hot_trace)) = Some CONFIG \<and>
   t (run_all (model_lib hot_trace)) = Some (hot_trace, CONFIG)"
proof -
  have call: "Call_Analyzer hot_trace CONFIG \<in> set (calls (run_all (model_lib hot_trace)))"
    and recv: "Call_assertStatement (hot_trace, CONFIG) STMT_MEAN (Some (SelInt 0))
      \<in> set (calls (run_all (model_lib hot_trace)))"
    by (simp_all add: hot_run statement_calls_def)
  note inst = config_event_classes [of "model_lib hot_trace"]
  from inst have "(''IN'', CpuInPower) \<in> {(k, c). map_of CONFIG k = Some (Cls c)}"
    by simp
  then have 1: "map_of CONFIG ''IN'' = Some (Cls CpuInPower)" by simp
  from inst have 2: "config (run_all (model_lib hot_trace)) = Some CONFIG" by simp
  from inst recv have 3: "t (run_all (model_lib hot_trace)) = Some (hot_trace, CONFIG)"
    by fastforce
  from 1 2 3 call show ?thesis by simp
qed


section \<open>Imports and statement strings\<close>

lemma numpy_in_statements:
  "sublist ''numpy'' STMT_PERCENTILE" "sublist ''numpy'' STMT_MEAN" "sublist ''numpy'' STMT_STD"
  "\<not> sublist ''numpy'' STMT_LOAD" "\<not> sublist ''numpy'' STMT_GOVERNOR"
  by (simp_all add: STMT_LOAD_def STMT_GOVERNOR_def STMT_PERCENTILE_def STMT_MEAN_def
      STMT_STD_def sublist_Cons_right)

lemma expected_not_in_statements:
  "\<not> sublist ''EXPECTED_TEMP_QRT'' STMT_LOAD" "\<not> sublist ''EXPECTED_STD_PCT'' STMT_LOAD"
  "\<not> sublist ''EXPECTED_TEMP_QRT'' STMT_GOVERNOR" "\<not> sublist ''EXPECTED_STD_PCT'' STMT_GOVERNOR"
  "\<not> sublist ''EXPECTED_TEMP_QRT'' STMT_PERCENTILE" "\<not> sublist ''EXPECTED_STD_PCT'' STMT_PERCENTILE"
  "\<not> sublist ''EXPECTED_TEMP_QRT'' STMT_MEAN" "\<not> sublist ''EXPECTED_STD_PCT'' STMT_MEAN"
  "\<not> sublist ''EXPECTED_TEMP_QRT'' STMT_STD" "\<not> sublist ''EXPECTED_STD_PCT'' STMT_STD"
  by (simp_all add: STMT_LOAD_def STMT_GOVERNOR_def STMT_PERCENTILE_def STMT_MEAN_def
      STMT_STD_def sublist_Cons_right)

lemma literal_95: "sublist ''95'' STMT_PERCENTILE"
  by (simp add: STMT_PERCENTILE_def sublist_Cons_right)

lemma CONFIG_with_agree:
  "k \<noteq> ''EXPECTED_TEMP_QRT'' \<Longrightarrow> k \<noteq> ''EXPECTED_STD_PCT'' \<Longrightarrow>
   map_of (CONFIG_with q p) k = map_of (CONFIG_with q' p') k"
  by (simp add: CONFIG_with_def)

lemma CONFIG_with_shape: "same_shape (CONFIG_with q p) (CONFIG_with q' p')"
  by (simp add: same_shape_def CONFIG_with_def)

text \<open>
  C7. The notebook imports two modules, \<open>trappy\<close> and \<open>bart.common.Analyzer\<close>, and
  never \<open>numpy\<close>: in any run the imported modules are among the two, and in a run that
  ends without an exception they are exactly the two, in that order. In such a run the
  library calls are \<open>trappy.Run\<close> on the trace path, the Analyzer constructor on the
  trace it returned, and six statement calls on that Analyzer; the trace is passed to
  nothing else and every number is computed behind a statement string. \<open>numpy\<close> occurs
  in the last three statement strings (percentile, mean, standard deviation) and in
  neither of the first two.
\<close>

theorem imports_and_delegation:
  "set (imported (run_all L)) \<subseteq> {''trappy'', ''bart.common.Analyzer''} \<and>
   ''numpy'' \<notin> set (imported (run_all L)) \<and>
   (raised (run_all L) = None \<longrightarrow>
      imported (run_all L) = [''trappy'', ''bart.common.Analyzer''] \<and>
      (\<exists>r a. trappy_Run L TRACE_PATH ''SomeBenchMark'' = Inr r \<and>
         Analyzer L r CONFIG = Inr a \<and>
         calls (run_all L) =
           [Call_Run TRACE_PATH ''SomeBenchMark'',
            Call_Analyzer r CONFIG,
            Call_getStatement a STMT_LOAD True (Some (SelStr ''000000f0'')),
            Call_getStatement a STMT_LOAD True (Some (SelStr ''000000f0'')),
            Call_getStatement a STMT_GOVERNOR True (Some (SelInt 0)),
            Call_assertStatement a STMT_PERCENTILE None,
            Call_assertStatement a STMT_MEAN (Some (SelInt 0)),
            Call_getStatement a STMT_STD False (Some (SelInt 0))])) \<and>
   sublist ''numpy'' STMT_PERCENTILE \<and> sublist ''numpy'' STMT_MEAN \<and>
   sublist ''numpy'' STMT_STD \<and>
   \<not> sublist ''numpy'' STMT_LOAD \<and> \<not> sublist ''numpy'' STMT_GOVERNOR"
proof -
  have mods: "set (imported (run_all L)) \<subseteq> {''trappy'', ''bart.common.Analyzer''} \<and>
      ''numpy'' \<notin> set (imported (run_all L))"
  proof (cases L rule: run_all_kinds)
    case (Run_raises e)
    then show ?thesis by (simp add: init_def)
  next
    case (Analyzer_raises r e)
    then show ?thesis by (simp add: init_def)
  next
    case (Checks r a k res ls shs e)
    then show ?thesis by simp
  qed
  have complete: "imported (run_all L) = [''trappy'', ''bart.common.Analyzer''] \<and>
      (\<exists>r a. trappy_Run L TRACE_PATH ''SomeBenchMark'' = Inr r \<and>
         Analyzer L r CONFIG = Inr a \<and>
         calls (run_all L) =
           [Call_Run TRACE_PATH ''SomeBenchMark'',
            Call_Analyzer r CONFIG,
            Call_getStatement a STMT_LOAD True (Some (SelStr ''000000f0'')),
            Call_getStatement a STMT_LOAD True (Some (SelStr ''000000f0'')),
            Call_getStatement a STMT_GOVERNOR True (Some (SelInt 0)),
            Call_assertStatement a STMT_PERCENTILE None,
            Call_assertStatement a STMT_MEAN (Some (SelInt 0)),
            Call_getStatement a STMT_STD False (Some (SelInt 0))])"
    if "raised (run_all L) = None"
  proof -
    from that obtain r a r1 n1 r3 n3 b1 b2 r4
      where ans: "answers L CONFIG r a r1 n1 r3 n3 b1 b2 r4"
      using run_all_complete [where L = L and q = 95 and p = 5]
      by (auto simp add: run_all_eq CONFIG_def)
    then have fin: "run_all L = final_state CONFIG r a n1 r3 n3 b1 b2 r4"
      by (rule run_all_final)
    from ans have "trappy_Run L TRACE_PATH ''SomeBenchMark'' = Inr r"
      and "Analyzer L r CONFIG = Inr a"
      by (simp_all add: answers_def)
    then show ?thesis
      by (intro conjI exI [of _ r] exI [of _ a]) (simp_all add: fin statement_calls_def)
  qed
  from mods complete numpy_in_statements show ?thesis by blast
qed

theorem imports_and_delegation_witness:
  "raised (run_all (model_lib hot_trace)) = None \<and>
   imported (run_all (model_lib hot_trace)) = [''trappy'', ''bart.common.Analyzer''] \<and>
   length (calls (run_all (model_lib hot_trace))) = 8"
proof -
  have ok: "raised (run_all (model_lib hot_trace)) = None"
    by (simp add: hot_run)
  from imports_and_delegation [of "model_lib hot_trace"] ok
  have "imported (run_all (model_lib hot_trace)) = [''trappy'', ''bart.common.Analyzer'']"
    and "\<exists>r a. calls (run_all (model_lib hot_trace)) =
           [Call_Run TRACE_PATH ''SomeBenchMark'',
            Call_Analyzer r CONFIG,
            Call_getStatement a STMT_LOAD True (Some (SelStr ''000000f0'')),
            Call_getStatement a STMT_LOAD True (Some (SelStr ''000000f0'')),
            Call_getStatement a STMT_GOVERNOR True (Some (SelInt 0)),
            Call_assertStatement a STMT_PERCENTILE None,
            Call_assertStatement a STMT_MEAN (Some (SelInt 0)),
            Call_getStatement a STMT_STD False (Some (SelInt 0))]"
    by blast+
  with ok show ?thesis by auto
qed


section \<open>The two unused configuration entries\<close>

lemma names_in_statements:
  "sublist ''CONTROL_TEMP'' STMT_GOVERNOR" "sublist ''SUSTAINABLE_POWER'' STMT_GOVERNOR"
  "sublist ''CONTROL_TEMP'' STMT_PERCENTILE" "sublist ''TEMP_MARGIN'' STMT_PERCENTILE"
  "sublist ''CONTROL_TEMP'' STMT_MEAN"
  by (simp_all add: STMT_GOVERNOR_def STMT_PERCENTILE_def STMT_MEAN_def sublist_Cons_right)

lemma model_reads_named_entries: "reads_named_entries (model_lib tr)"
proof -
  have get: "model_getStatement (r, c) stmt ref sel = model_getStatement (r, c') stmt ref sel"
    if "\<forall>k. sublist k stmt \<longrightarrow> map_of c k = map_of c' k" for r c c' stmt ref sel
  proof -
    have "cfg_num c ''CONTROL_TEMP'' = cfg_num c' ''CONTROL_TEMP'' \<and>
        cfg_num c ''SUSTAINABLE_POWER'' = cfg_num c' ''SUSTAINABLE_POWER''"
      if "stmt = STMT_GOVERNOR"
      using that \<open>\<forall>k. sublist k stmt \<longrightarrow> map_of c k = map_of c' k\<close> names_in_statements
      by (simp add: cfg_num_def)
    then have nums: "stmt = STMT_GOVERNOR \<Longrightarrow>
        cfg_num c ''CONTROL_TEMP'' = cfg_num c' ''CONTROL_TEMP'' \<and>
        cfg_num c ''SUSTAINABLE_POWER'' = cfg_num c' ''SUSTAINABLE_POWER''"
      by simp
    have l: "load_statement_holds c = load_statement_holds c'"
      by (simp add: fun_eq_iff load_statement_holds_def)
    have g: "governor_statement_holds c = governor_statement_holds c'"
      if "stmt = STMT_GOVERNOR"
      using nums [OF that] by (simp add: fun_eq_iff governor_statement_holds_def)
    show ?thesis
    proof (cases "stmt = STMT_GOVERNOR")
      case True
      with nums g statements_differ(1) show ?thesis
        by (simp add: model_getStatement_def split: option.splits)
    next
      case False
      with l show ?thesis
        by (simp add: model_getStatement_def split: option.splits)
    qed
  qed
  have asrt: "model_assertStatement (r, c) stmt sel = model_assertStatement (r, c') stmt sel"
    if "\<forall>k. sublist k stmt \<longrightarrow> map_of c k = map_of c' k" for r c c' stmt sel
  proof -
    have "cfg_num c ''CONTROL_TEMP'' = cfg_num c' ''CONTROL_TEMP'' \<and>
        cfg_num c ''TEMP_MARGIN'' = cfg_num c' ''TEMP_MARGIN''"
      if "stmt = STMT_PERCENTILE"
      using that \<open>\<forall>k. sublist k stmt \<longrightarrow> map_of c k = map_of c' k\<close> names_in_statements
      by (simp add: cfg_num_def)
    moreover have "cfg_num c ''CONTROL_TEMP'' = cfg_num c' ''CONTROL_TEMP''"
      if "stmt = STMT_MEAN"
      using that \<open>\<forall>k. sublist k stmt \<longrightarrow> map_of c k = map_of c' k\<close> names_in_statements
      by (simp add: cfg_num_def)
    ultimately show ?thesis
      by (auto simp add: model_assertStatement_def split: option.splits)
  qed
  show ?thesis
    unfolding reads_named_entries_def
    by (auto simp add: model_lib_def same_outcome_def get asrt)
qed

text \<open>
  What cells 4 to 8 print, display and raise depends on the Analyzer only through
  the answers to the five different calls.
\<close>

lemma checks_outputs_cong:
  assumes e1: "getStatement L a STMT_LOAD True (Some (SelStr ''000000f0'')) =
               getStatement L a' STMT_LOAD True (Some (SelStr ''000000f0''))"
    and e3: "getStatement L a STMT_GOVERNOR True (Some (SelInt 0)) =
             getStatement L a' STMT_GOVERNOR True (Some (SelInt 0))"
    and e5: "assertStatement L a STMT_PERCENTILE None =
             assertStatement L a' STMT_PERCENTILE None"
    and e6: "assertStatement L a STMT_MEAN (Some (SelInt 0)) =
             assertStatement L a' STMT_MEAN (Some (SelInt 0))"
    and e7: "getStatement L a STMT_STD False (Some (SelInt 0)) =
             getStatement L a' STMT_STD False (Some (SelInt 0))"
  shows "outputs (run_stmts (checks L) (setup_state c r a)) =
           outputs (run_stmts (checks L) (setup_state c' r' a')) \<and>
         result (run_stmts (checks L) (setup_state c r a)) =
           result (run_stmts (checks L) (setup_state c' r' a'))"
proof (cases "getStatement L a STMT_LOAD True (Some (SelStr ''000000f0''))")
  case (Inl e)
  with e1 have "getStatement L a' STMT_LOAD True (Some (SelStr ''000000f0'')) = Inl e"
    by simp
  with Inl show ?thesis
    by (simp add: outputs_def fails_big_get)
next
  case g1: (Inr r1)
  with e1 have g1': "getStatement L a' STMT_LOAD True (Some (SelStr ''000000f0'')) = Inr r1"
    by simp
  show ?thesis
  proof (cases "len L r1")
    case (Inl e)
    then show ?thesis
      by (simp add: outputs_def fails_big_len [OF g1] fails_big_len [OF g1'])
  next
    case l1: (Inr n1)
    show ?thesis
    proof (cases "getStatement L a STMT_GOVERNOR True (Some (SelInt 0))")
      case (Inl e)
      with e3 have "getStatement L a' STMT_GOVERNOR True (Some (SelInt 0)) = Inl e"
        by simp
      with Inl show ?thesis
        by (simp add: outputs_def fails_governor_get [OF g1 l1]
            fails_governor_get [OF g1' l1])
    next
      case g3: (Inr r3)
      with e3 have g3': "getStatement L a' STMT_GOVERNOR True (Some (SelInt 0)) = Inr r3"
        by simp
      show ?thesis
      proof (cases "len L r3")
        case (Inl e)
        then show ?thesis
          by (simp add: outputs_def fails_governor_len [OF g1 l1 g3]
              fails_governor_len [OF g1' l1 g3'])
      next
        case l3: (Inr n3)
        show ?thesis
        proof (cases "assertStatement L a STMT_PERCENTILE None")
          case (Inl e)
          with e5 have "assertStatement L a' STMT_PERCENTILE None = Inl e"
            by simp
          with Inl show ?thesis
            by (simp add: outputs_def fails_percentile [OF g1 l1 g3 l3]
                fails_percentile [OF g1' l1 g3' l3])
        next
          case a1: (Inr b1)
          with e5 have a1': "assertStatement L a' STMT_PERCENTILE None = Inr b1"
            by simp
          show ?thesis
          proof (cases "assertStatement L a STMT_MEAN (Some (SelInt 0))")
            case (Inl e)
            with e6 have "assertStatement L a' STMT_MEAN (Some (SelInt 0)) = Inl e"
              by simp
            with Inl show ?thesis
              by (simp add: outputs_def fails_mean [OF g1 l1 g3 l3 a1]
                  fails_mean [OF g1' l1 g3' l3 a1'])
          next
            case a2: (Inr b2)
            with e6 have a2': "assertStatement L a' STMT_MEAN (Some (SelInt 0)) = Inr b2"
              by simp
            show ?thesis
            proof (cases "getStatement L a STMT_STD False (Some (SelInt 0))")
              case (Inl e)
              with e7 have "getStatement L a' STMT_STD False (Some (SelInt 0)) = Inl e"
                by simp
              with Inl show ?thesis
                by (simp add: outputs_def fails_std [OF g1 l1 g3 l3 a1 a2]
                    fails_std [OF g1' l1 g3' l3 a1' a2'])
            next
              case g4: (Inr r4)
              with e7 have g4': "getStatement L a' STMT_STD False (Some (SelInt 0)) = Inr r4"
                by simp
              show ?thesis
                by (simp add: outputs_def checks_run [OF g1 l1 g3 l3 a1 a2 g4]
                    checks_run [OF g1' l1 g3' l3 a1' a2' g4'])
            qed
          qed
        qed
      qed
    qed
  qed
qed


text \<open>
  C9. Take a library that reads the configuration only to resolve names occurring in
  the statement, and that builds an Analyzer without looking at the integers in the
  configuration. Run the notebook twice on it, with any two pairs of values for
  \<open>EXPECTED_TEMP_QRT\<close> and \<open>EXPECTED_STD_PCT\<close> (the notebook itself is the run with 95
  and 5): the lines printed, the values displayed, the exception raised if any and the
  last result bound are the same, and so is the answer to each of the five different
  statement calls. Neither name occurs in any statement string, and the percentile
  statement carries the literal 95.
\<close>

theorem expected_entries_unused:
  assumes "reads_named_entries L"
  shows "run_all L = run_stmts (notebook_with 95 5 L) init \<and>
         outputs (run_stmts (notebook_with q p L) init) =
           outputs (run_stmts (notebook_with q' p' L) init) \<and>
         result (run_stmts (notebook_with q p L) init) =
           result (run_stmts (notebook_with q' p' L) init) \<and>
         (\<forall>r a a'. Analyzer L r (CONFIG_with q p) = Inr a \<and>
            Analyzer L r (CONFIG_with q' p') = Inr a' \<longrightarrow>
            (\<forall>stmt \<in> {STMT_LOAD, STMT_GOVERNOR, STMT_PERCENTILE, STMT_MEAN, STMT_STD}.
               (\<forall>ref sel. getStatement L a stmt ref sel = getStatement L a' stmt ref sel) \<and>
               (\<forall>sel. assertStatement L a stmt sel = assertStatement L a' stmt sel))) \<and>
         (\<forall>stmt \<in> {STMT_LOAD, STMT_GOVERNOR, STMT_PERCENTILE, STMT_MEAN, STMT_STD}.
            \<not> sublist ''EXPECTED_TEMP_QRT'' stmt \<and> \<not> sublist ''EXPECTED_STD_PCT'' stmt) \<and>
         sublist ''95'' STMT_PERCENTILE"
proof -
  let ?c = "CONFIG_with q p" and ?c' = "CONFIG_with q' p'"
  let ?stmts = "{STMT_LOAD, STMT_GOVERNOR, STMT_PERCENTILE, STMT_MEAN, STMT_STD}"
  from assms have shape:
    "\<forall>r c c'. same_shape c c' \<longrightarrow> same_outcome (Analyzer L r c) (Analyzer L r c')"
    unfolding reads_named_entries_def by (rule conjunct1)
  from assms have frame:
    "\<forall>r c c' a a' stmt.
        Analyzer L r c = Inr a \<and> Analyzer L r c' = Inr a' \<and>
        (\<forall>k. sublist k stmt \<longrightarrow> map_of c k = map_of c' k) \<longrightarrow>
        (\<forall>ref sel. getStatement L a stmt ref sel = getStatement L a' stmt ref sel) \<and>
        (\<forall>sel. assertStatement L a stmt sel = assertStatement L a' stmt sel)"
    unfolding reads_named_entries_def by (rule conjunct2)
  have absent: "\<forall>stmt \<in> ?stmts.
      \<not> sublist ''EXPECTED_TEMP_QRT'' stmt \<and> \<not> sublist ''EXPECTED_STD_PCT'' stmt"
    using expected_not_in_statements by simp
  have agree: "\<forall>k. sublist k stmt \<longrightarrow> map_of ?c k = map_of ?c' k"
    if "stmt \<in> ?stmts" for stmt
  proof (intro allI impI)
    fix k :: string
    assume "sublist k stmt"
    with absent that have "k \<noteq> ''EXPECTED_TEMP_QRT''" and "k \<noteq> ''EXPECTED_STD_PCT''"
      by blast+
    then show "map_of ?c k = map_of ?c' k"
      by (rule CONFIG_with_agree)
  qed
  have same: "(\<forall>ref sel. getStatement L a stmt ref sel = getStatement L a' stmt ref sel) \<and>
      (\<forall>sel. assertStatement L a stmt sel = assertStatement L a' stmt sel)"
    if "Analyzer L r ?c = Inr a" "Analyzer L r ?c' = Inr a'" "stmt \<in> ?stmts"
    for r a a' stmt
    using frame [rule_format, of r ?c a ?c' a' stmt] that(1,2) agree [OF that(3)]
    by (simp only: simp_thms)
  have out: "outputs (run_stmts (notebook_with q p L) init) =
           outputs (run_stmts (notebook_with q' p' L) init) \<and>
         result (run_stmts (notebook_with q p L) init) =
           result (run_stmts (notebook_with q' p' L) init)"
  proof (cases "trappy_Run L TRACE_PATH ''SomeBenchMark''")
    case (Inl e)
    then show ?thesis
      by (simp add: setup_fails_Run outputs_def)
  next
    case r: (Inr r)
    have so: "same_outcome (Analyzer L r ?c) (Analyzer L r ?c')"
      using shape [rule_format, OF CONFIG_with_shape] .
    show ?thesis
    proof (cases "Analyzer L r ?c")
      case (Inl e)
      with so have "Analyzer L r ?c' = Inl e"
        by (cases "Analyzer L r ?c'") (simp_all add: same_outcome_def)
      with Inl show ?thesis
        by (simp add: setup_fails_Analyzer [OF r] outputs_def)
    next
      case a: (Inr a)
      with so obtain a' where a': "Analyzer L r ?c' = Inr a'"
        by (cases "Analyzer L r ?c'") (simp_all add: same_outcome_def)
      have "outputs (run_stmts (checks L) (setup_state ?c r a)) =
              outputs (run_stmts (checks L) (setup_state ?c' r a')) \<and>
            result (run_stmts (checks L) (setup_state ?c r a)) =
              result (run_stmts (checks L) (setup_state ?c' r a'))"
      proof (rule checks_outputs_cong)
        show "getStatement L a STMT_LOAD True (Some (SelStr ''000000f0'')) =
              getStatement L a' STMT_LOAD True (Some (SelStr ''000000f0''))"
          using same [OF a a', of STMT_LOAD] by simp
        show "getStatement L a STMT_GOVERNOR True (Some (SelInt 0)) =
              getStatement L a' STMT_GOVERNOR True (Some (SelInt 0))"
          using same [OF a a', of STMT_GOVERNOR] by simp
        show "assertStatement L a STMT_PERCENTILE None =
              assertStatement L a' STMT_PERCENTILE None"
          using same [OF a a', of STMT_PERCENTILE] by simp
        show "assertStatement L a STMT_MEAN (Some (SelInt 0)) =
              assertStatement L a' STMT_MEAN (Some (SelInt 0))"
          using same [OF a a', of STMT_MEAN] by simp
        show "getStatement L a STMT_STD False (Some (SelInt 0)) =
              getStatement L a' STMT_STD False (Some (SelInt 0))"
          using same [OF a a', of STMT_STD] by simp
      qed
      then show ?thesis
        by (simp only: run_all_setup [OF r a] run_all_setup [OF r a'])
    qed
  qed
  have each: "\<forall>r a a'. Analyzer L r ?c = Inr a \<and> Analyzer L r ?c' = Inr a' \<longrightarrow>
      (\<forall>stmt \<in> ?stmts.
         (\<forall>ref sel. getStatement L a stmt ref sel = getStatement L a' stmt ref sel) \<and>
         (\<forall>sel. assertStatement L a stmt sel = assertStatement L a' stmt sel))"
  proof (intro allI impI ballI)
    fix r a a' stmt
    assume "Analyzer L r ?c = Inr a \<and> Analyzer L r ?c' = Inr a'" and "stmt \<in> ?stmts"
    then show "(\<forall>ref sel. getStatement L a stmt ref sel = getStatement L a' stmt ref sel) \<and>
         (\<forall>sel. assertStatement L a stmt sel = assertStatement L a' stmt sel)"
      using same [of r a a' stmt] by (simp only: simp_thms)
  qed
  show ?thesis
    apply (intro conjI)
    subgoal by (rule run_all_eq)
    subgoal using out by (rule conjunct1)
    subgoal using out by (rule conjunct2)
    subgoal by (rule each)
    subgoal by (rule absent)
    subgoal by (rule literal_95)
    done
qed

theorem expected_entries_unused_witness:
  "reads_named_entries (model_lib quiet_trace) \<and>
   outputs (run_stmts (notebook_with 50 1 (model_lib quiet_trace)) init) =
     ([PASS_BIG, PASS_LITTLE, PASS_GOVERNOR],
      [ShownBool True, ShownBool True,
       ShownRes (Value (std [70000, 78000] * 100 / mean [70000, 78000]))],
      None)"
proof -
  have "outputs (run_stmts (notebook_with 95 5 (model_lib quiet_trace)) init) =
     ([PASS_BIG, PASS_LITTLE, PASS_GOVERNOR],
      [ShownBool True, ShownBool True,
       ShownRes (Value (std [70000, 78000] * 100 / mean [70000, 78000]))],
      None)"
    by (simp add: run_all_answers [OF quiet_answers] outputs_def line_def)
  with expected_entries_unused [OF model_reads_named_entries, of quiet_trace 50 1 95 5]
    model_reads_named_entries [of quiet_trace]
  show ?thesis by simp
qed



section \<open>One trace, one Analyzer\<close>































end
